theory Spec2Isabelle
  imports Complex_Main
begin

section \<open>Carnet digital: persistence gateway, credentials and loan ledger\<close>

text \<open>
  The portal keeps three tables behind a hosted gateway: \<open>students\<close> (primary key
  \<open>code\<close>), \<open>staff\<close> (primary key \<open>id\<close>, unique \<open>email\<close>) and \<open>loans\<close> (primary key
  \<open>id\<close>, foreign key \<open>student_code\<close>).  A table is modelled as a finite map from its key
  column to the remaining columns of the row; the query chains of the source
  (\<open>.eq(key, v).single()\<close>, \<open>.update(..).eq(key, v)\<close>, \<open>.insert(..)\<close>) become lookups
  and updates of these maps.  The gateway is deterministic here: the only failures it
  reports are the ones the schema forces (no row for \<open>.single()\<close>, a violated
  constraint); transport failures are outside the model.

  JavaScript strings are sequences of code units; the model keeps the code units below
  256 as \<open>char\<close>, so an accented letter of a message is one \<open>char\<close>.
  Timestamps (\<open>Date.now()\<close>, \<open>new Date().toISOString()\<close>) are the instant in
  milliseconds since the epoch.
\<close>

subsection \<open>Rows\<close>

record pw_entry =
  changedAt :: int
  changedBy :: string

text \<open>
  \<open>password_history\<close> is a \<open>jsonb\<close> column, and the client hands its value over as the
  JSON value it is: \<open>null\<close>; an array (\<open>HistoryArray\<close>), which is what the column default
  \<open>'[]'\<close> and any stored array are; or a string (\<open>HistoryText\<close>).  The operations below write
  the string \<open>JSON.stringify(history)\<close>, which the gateway stores in the column as a JSON
  string; \<open>HistoryText h\<close> is the string that is the JSON text of the list \<open>h\<close>.
\<close>

datatype history_col = HistoryNull | HistoryArray "pw_entry list" | HistoryText "pw_entry list"

record student =
  cedula :: string
  name :: string
  lastname :: string
  program :: string
  expiry :: string
  sede :: string
  rh :: string
  photo :: "string option"
  password_hash :: string
  first_login :: "bool option"
  active :: "bool option"
  password_history :: history_col
  created_at :: int
  updated_at :: int

record staff_row =
  st_id :: string
  st_name :: string
  st_password_hash :: string
  st_password_history :: history_col
  st_created_at :: int
  st_updated_at :: int

record loan =
  student_code :: string
  student_name :: string
  category :: string
  item_type :: string
  item_description :: "string option"
  staff_email :: string
  staff_name :: string
  borrowed_at :: int
  returned_at :: "int option"
  status :: string
  loan_created_at :: int

record db =
  students :: "string \<rightharpoonup> student"
  staff :: "string \<rightharpoonup> staff_row"
  loans :: "string \<rightharpoonup> loan"

subsection \<open>Failures\<close>

text \<open>
  A gateway error carries a code and a message whose text belongs to the gateway; a
  failure surfaced by the portal is a message written in the source, the message of a
  gateway error, or the \<open>SyntaxError\<close> that \<open>JSON.parse\<close> throws.
\<close>

datatype gw_error = PGRST116 | CheckViolation | UniqueViolation | ForeignKeyViolation

datatype failure = Message string | GatewayMessage gw_error | JsonSyntaxError

definition msg_credenciales :: string where
  "msg_credenciales = ''Credenciales inv'' @ [CHR 0xE1] @ ''lidas''"

definition msg_inactivo :: string where
  "msg_inactivo = ''Tu carnet est'' @ [CHR 0xE1] @
     '' inactivo. Por favor, contacta con un funcionario para reactivarlo.''"

definition msg_estudiante_no_encontrado :: string where
  "msg_estudiante_no_encontrado = ''Estudiante no encontrado''"

definition msg_funcionario_no_encontrado :: string where
  "msg_funcionario_no_encontrado = ''Funcionario no encontrado''"

definition msg_datos_invalidos :: string where
  "msg_datos_invalidos = ''Datos de estudiante inv'' @ [CHR 0xE1] @ ''lidos''"

subsection \<open>api.js: helpers\<close>

definition sanitize :: "string \<Rightarrow> string" where
  "sanitize text = filter (\<lambda>c. c \<noteq> CHR ''<'' \<and> c \<noteq> CHR ''>'') text"

text \<open>\<open>a || b\<close> on a possibly missing string: the empty string is falsy.\<close>

definition or_else :: "string option \<Rightarrow> string \<Rightarrow> string" where
  "or_else a b = (case a of None \<Rightarrow> b | Some s \<Rightarrow> if s = [] then b else s)"

text \<open>\<open>xs.slice(k)\<close>: a negative start counts from the end, clamped at the front.\<close>

definition slice_from :: "int \<Rightarrow> 'a list \<Rightarrow> 'a list" where
  "slice_from k xs =
     (if k < 0 then drop (nat (max (int (length xs) + k) 0)) xs else drop (nat k) xs)"

text \<open>
  \<open>existing.password_history ? JSON.parse(existing.password_history) : []\<close>, the
  expression by which all three password operations read the column.  \<open>null\<close> is falsy
  and gives the empty list.  A string is parsed.  An array is truthy, also when empty;
  \<open>JSON.parse\<close> first converts it to a string, the empty string for the empty array and
  \<open>[object Object],...\<close> for an array of entries, neither of which is JSON, and throws.
\<close>

definition parse_history :: "history_col \<Rightarrow> failure + pw_entry list" where
  "parse_history col =
     (case col of
        HistoryNull \<Rightarrow> Inr []
      | HistoryText h \<Rightarrow> Inr h
      | HistoryArray a \<Rightarrow> Inl JsonSyntaxError)"

subsection \<open>api.js: AuthAPI\<close>

text \<open>
  The digest \<open>sha256\<close> is a parameter \<open>H\<close> of every operation that hashes.
  \<open>loginStudent\<close> selects the row with the given code and password hash.
\<close>

definition loginStudent ::
  "(string \<Rightarrow> string) \<Rightarrow> db \<Rightarrow> string \<Rightarrow> string \<Rightarrow> failure + (string \<times> student)" where
  "loginStudent H d code password =
     (let passwordHash = H password;
          sanitizedCode = sanitize code
      in case students d sanitizedCode of
           None \<Rightarrow> Inl (Message msg_credenciales)
         | Some data \<Rightarrow>
             if password_hash data \<noteq> passwordHash then Inl (Message msg_credenciales)
             else if active data = Some False then Inl (Message msg_inactivo)
             else Inr (sanitizedCode, data))"

definition changeStudentPassword ::
  "(string \<Rightarrow> string) \<Rightarrow> db \<Rightarrow> string \<Rightarrow> string \<Rightarrow> int \<Rightarrow> failure + db" where
  "changeStudentPassword H d code newPassword now =
     (let passwordHash = H newPassword;
          sanitizedCode = sanitize code
      in case students d sanitizedCode of
           None \<Rightarrow> Inl (Message msg_estudiante_no_encontrado)
         | Some existing \<Rightarrow>
             (case parse_history (password_history existing) of
                Inl err \<Rightarrow> Inl err
              | Inr parsed \<Rightarrow>
                  let history = parsed @ [\<lparr>changedAt = now, changedBy = ''self''\<rparr>];
                      history = (if length history > 10 then slice_from (- 10) history
                                 else history)
                  in Inr (d\<lparr>students := (students d)(sanitizedCode \<mapsto>
                           existing\<lparr>password_hash := passwordHash,
                                    first_login := Some False,
                                    password_history := HistoryText history,
                                    updated_at := now\<rparr>)\<rparr>)))"

subsection \<open>api.js: StudentsAPI\<close>

record studentData =
  sd_code :: string
  sd_cedula :: "string option"
  sd_name :: "string option"
  sd_lastname :: "string option"
  sd_program :: "string option"
  sd_expiry :: "string option"
  sd_sede :: "string option"
  sd_rh :: "string option"
  sd_photo :: "string option"
  sd_active :: "bool option"

text \<open>
  In \<open>studentData\<close> a missing property is \<open>None\<close>; a missing or empty \<open>code\<close> is the empty
  string.  The insert does not send \<open>password_history\<close>, so a new row takes the column
  default, the empty \<open>jsonb\<close> array.
\<close>

definition createOrUpdate ::
  "(string \<Rightarrow> string) \<Rightarrow> db \<Rightarrow> studentData \<Rightarrow> int \<Rightarrow> failure + db" where
  "createOrUpdate H d sd now =
     (if sd_code sd = [] then Inl (Message msg_datos_invalidos)
      else
        let code = sanitize (sd_code sd);
            existing = students d code;
            passwordDefault = or_else (sd_cedula sd) (sd_code sd);
            passwordHash = (case existing of Some e \<Rightarrow> password_hash e
                            | None \<Rightarrow> H passwordDefault);
            d_cedula = sanitize (or_else (sd_cedula sd) []);
            d_name = sanitize (or_else (sd_name sd) []);
            d_lastname = sanitize (or_else (sd_lastname sd) []);
            d_program = sanitize (or_else (sd_program sd) []);
            d_expiry = sanitize (or_else (sd_expiry sd) []);
            d_sede = sanitize (or_else (sd_sede sd) []);
            d_rh = sanitize (or_else (sd_rh sd) []);
            d_photo = (case sd_photo sd of None \<Rightarrow> None
                       | Some p \<Rightarrow> if p = [] then None else Some p);
            d_active = (case sd_active sd of Some a \<Rightarrow> Some a | None \<Rightarrow> Some True)
        in case existing of
             Some e \<Rightarrow>
               Inr (d\<lparr>students := (students d)(code \<mapsto>
                      e\<lparr>cedula := d_cedula, name := d_name, lastname := d_lastname,
                        program := d_program, expiry := d_expiry, sede := d_sede,
                        rh := d_rh, photo := d_photo, password_hash := passwordHash,
                        active := d_active, updated_at := now\<rparr>)\<rparr>)
           | None \<Rightarrow>
               Inr (d\<lparr>students := (students d)(code \<mapsto>
                      \<lparr>cedula = d_cedula, name = d_name, lastname = d_lastname,
                       program = d_program, expiry = d_expiry, sede = d_sede,
                       rh = d_rh, photo = d_photo, password_hash = passwordHash,
                       first_login = Some True, active = Some True,
                       password_history = HistoryArray [],
                       created_at = now, updated_at = now\<rparr>)\<rparr>))"

definition resetPassword ::
  "(string \<Rightarrow> string) \<Rightarrow> db \<Rightarrow> string \<Rightarrow> string \<Rightarrow> string \<Rightarrow> int \<Rightarrow> failure + db" where
  "resetPassword H d code newPassword by now =
     (let passwordHash = H newPassword;
          sanitizedCode = sanitize code
      in case students d sanitizedCode of
           None \<Rightarrow> Inl (Message msg_estudiante_no_encontrado)
         | Some existing \<Rightarrow>
             (case parse_history (password_history existing) of
                Inl err \<Rightarrow> Inl err
              | Inr parsed \<Rightarrow>
                  let history = parsed @ [\<lparr>changedAt = now, changedBy = by\<rparr>];
                      history = (if length history > 10 then slice_from (- 10) history
                                 else history)
                  in Inr (d\<lparr>students := (students d)(sanitizedCode \<mapsto>
                           existing\<lparr>password_hash := passwordHash,
                                    first_login := Some True,
                                    password_history := HistoryText history,
                                    updated_at := now\<rparr>)\<rparr>)))"

subsection \<open>api.js: StaffAPI\<close>

text \<open>
  The staff table is keyed by the unique \<open>email\<close> the lookup uses; the update then
  addresses rows by \<open>id\<close>, so it touches every row whose \<open>id\<close> is that of the row found.
\<close>

definition staff_resetPassword ::
  "(string \<Rightarrow> string) \<Rightarrow> db \<Rightarrow> string \<Rightarrow> string \<Rightarrow> string \<Rightarrow> int \<Rightarrow> failure + db" where
  "staff_resetPassword H d email newPassword by now =
     (let passwordHash = H newPassword;
          sanitizedEmail = sanitize email
      in case staff d sanitizedEmail of
           None \<Rightarrow> Inl (Message msg_funcionario_no_encontrado)
         | Some existing \<Rightarrow>
             (case parse_history (st_password_history existing) of
                Inl err \<Rightarrow> Inl err
              | Inr parsed \<Rightarrow>
                  let history = parsed @ [\<lparr>changedAt = now, changedBy = by\<rparr>];
                      history = (if length history > 10 then slice_from (- 10) history
                                 else history)
                  in Inr (d\<lparr>staff := (\<lambda>e. case staff d e of None \<Rightarrow> None
                            | Some r \<Rightarrow>
                                if st_id r = st_id existing
                                then Some (r\<lparr>st_password_hash := passwordHash,
                                             st_password_history := HistoryText history,
                                             st_updated_at := now\<rparr>)
                                else Some r)\<rparr>)))"

subsection \<open>loans.js\<close>

record loanData =
  ld_studentCode :: string
  ld_studentName :: string
  ld_category :: string
  ld_itemType :: string
  ld_itemDescription :: "string option"
  ld_staffEmail :: string
  ld_staffName :: string
  ld_borrowedAt :: "int option"

text \<open>
  Inserting a loan is subject to the constraints of the \<open>loans\<close> table: the \<open>CHECK\<close>s on
  \<open>category\<close> and \<open>status\<close>, the primary key, and the foreign key
  \<open>student_code REFERENCES students(code)\<close>.  The gateway chooses the new \<open>id\<close>
  (\<open>gen_random_uuid()\<close>), which is an argument here.
\<close>

definition insert_loan :: "db \<Rightarrow> string \<Rightarrow> loan \<Rightarrow> gw_error + db" where
  "insert_loan d new_id row =
     (if category row \<notin> {''biblioteca'', ''laboratorio''}
         \<or> status row \<notin> {''active'', ''returned''} then Inl CheckViolation
      else if loans d new_id \<noteq> None then Inl UniqueViolation
      else if students d (student_code row) = None then Inl ForeignKeyViolation
      else Inr (d\<lparr>loans := (loans d)(new_id \<mapsto> row)\<rparr>))"

definition registerLoan ::
  "db \<Rightarrow> loanData \<Rightarrow> string \<Rightarrow> int \<Rightarrow> (failure + string \<times> loan) \<times> db" where
  "registerLoan d ld new_id now =
     (let borrowedAt = (case ld_borrowedAt ld of Some b \<Rightarrow> b | None \<Rightarrow> now);
          row = \<lparr>student_code = ld_studentCode ld,
                 student_name = ld_studentName ld,
                 category = ld_category ld,
                 item_type = ld_itemType ld,
                 item_description = (case ld_itemDescription ld of None \<Rightarrow> None
                                     | Some t \<Rightarrow> if t = [] then None else Some t),
                 staff_email = ld_staffEmail ld,
                 staff_name = ld_staffName ld,
                 borrowed_at = borrowedAt,
                 returned_at = None,
                 status = ''active'',
                 loan_created_at = now\<rparr>
      in case insert_loan d new_id row of
           Inl e \<Rightarrow> (Inl (GatewayMessage e), d)
         | Inr d' \<Rightarrow> (Inr (new_id, row), d'))"

definition returnLoan :: "db \<Rightarrow> string \<Rightarrow> int \<Rightarrow> (failure + string \<times> loan) \<times> db" where
  "returnLoan d loanId now =
     (case loans d loanId of
        None \<Rightarrow> (Inl (GatewayMessage PGRST116), d)
      | Some l \<Rightarrow>
          let l' = l\<lparr>status := ''returned'', returned_at := Some now\<rparr>
          in (Inr (loanId, l'), d\<lparr>loans := (loans d)(loanId \<mapsto> l')\<rparr>))"

record student_summary =
  v_code :: string
  v_name :: string
  v_lastname :: string
  v_program :: string
  v_sede :: string

definition validateStudent :: "db \<Rightarrow> string \<Rightarrow> failure + student_summary" where
  "validateStudent d studentCode =
     (case students d studentCode of
        None \<Rightarrow> Inl (Message msg_estudiante_no_encontrado)
      | Some s \<Rightarrow> Inr \<lparr>v_code = studentCode, v_name = name s, v_lastname = lastname s,
                       v_program = program s, v_sede = sede s\<rparr>)"

subsection \<open>staffLoans.js: the loan form\<close>

text \<open>White space of \<open>String.prototype.trim\<close> and \<open>parseInt\<close>, among the code units kept.\<close>

definition is_space :: "char \<Rightarrow> bool" where
  "is_space c = (c \<in> {CHR 0x09, CHR 0x0A, CHR 0x0B, CHR 0x0C, CHR 0x0D, CHR 0x20, CHR 0xA0})"

definition trim :: "string \<Rightarrow> string" where
  "trim s = rev (dropWhile is_space (rev (dropWhile is_space s)))"

text \<open>A modal dialog: its kind, its title and its message.\<close>

datatype modal = ModalError string failure | ModalWarning string string
  | ModalSuccess string string

record loanForm =
  f_category :: string
  f_studentCode :: string
  f_libraryItem :: string
  f_labItem :: string
  f_description :: string
  f_borrowedAt :: "int option"

record session =
  se_role :: string
  se_email :: string
  se_name :: string

definition submit_loan ::
  "db \<Rightarrow> loanForm \<Rightarrow> session \<Rightarrow> student_summary \<Rightarrow> string \<Rightarrow> string \<Rightarrow> string \<Rightarrow> string
     \<Rightarrow> int \<Rightarrow> modal \<times> db" where
  "submit_loan d f se sdata studentCode itemType description new_id now =
     (let ld = \<lparr>ld_studentCode = studentCode,
               ld_studentName = trim (v_name sdata @ '' '' @ v_lastname sdata),
               ld_category = f_category f,
               ld_itemType = itemType,
               ld_itemDescription = (if description = [] then None else Some description),
               ld_staffEmail = se_email se,
               ld_staffName = se_name se,
               ld_borrowedAt = f_borrowedAt f\<rparr>;
          result = registerLoan d ld new_id now
      in (case fst result of
            Inr row \<Rightarrow>
              (ModalSuccess ([CHR 0xC9] @ ''xito'')
                 (''Pr'' @ [CHR 0xE9] @ ''stamo registrado exitosamente''), snd result)
          | Inl err \<Rightarrow> (ModalError ''Error'' err, snd result)))"

text \<open>
  \<open>handleLoanSubmit\<close> reads the form, validates the student, picks the item, checks the
  staff session and only then registers the loan (\<open>submit_loan\<close> is the tail of its body).
\<close>

definition handleLoanSubmit ::
  "db \<Rightarrow> loanForm \<Rightarrow> session option \<Rightarrow> string \<Rightarrow> int \<Rightarrow> modal \<times> db" where
  "handleLoanSubmit d f sess new_id now =
     (let studentCode = trim (f_studentCode f);
          labItem = trim (f_labItem f);
          description = trim (f_description f);
          itemType = (if f_category f = ''biblioteca'' then f_libraryItem f else labItem);
          no_staff = ModalError ''Error'' (Message
             (''No se pudo obtener informaci'' @ [CHR 0xF3] @ ''n del funcionario''))
      in (case validateStudent d studentCode of
            Inl err \<Rightarrow> (ModalError ''Error'' err, d)
          | Inr sdata \<Rightarrow>
              (if itemType = [] then
                 (ModalWarning (''Falta informaci'' @ [CHR 0xF3] @ ''n'')
                    (''Por favor seleccione o ingrese un '' @ [CHR 0xED] @ ''tem''), d)
               else (case sess of
                       None \<Rightarrow> (no_staff, d)
                     | Some se \<Rightarrow>
                         (if se_role se \<noteq> ''staff'' then (no_staff, d)
                          else submit_loan d f se sdata studentCode itemType description
                                 new_id now)))))"

subsection \<open>login.js: the failure branch of the login form\<close>

fun starts_with :: "string \<Rightarrow> string \<Rightarrow> bool" where
  "starts_with s [] = True"
| "starts_with [] (p # ps) = False"
| "starts_with (x # xs) (p # ps) = (x = p \<and> starts_with xs ps)"

fun includes_str :: "string \<Rightarrow> string \<Rightarrow> bool" where
  "includes_str [] p = (p = [])"
| "includes_str (x # xs) p = (starts_with (x # xs) p \<or> includes_str xs p)"

definition login_failure_modal :: "string \<Rightarrow> modal" where
  "login_failure_modal err_message =
     (if err_message \<noteq> [] \<and> includes_str err_message ''inactivo''
      then ModalError ''Carnet Inactivo'' (Message msg_inactivo)
      else ModalError ''Acceso denegado''
             (Message (if err_message = [] then msg_credenciales else err_message)))"

subsection \<open>Sequences of password changes\<close>

text \<open>
  A password operation is one call of \<open>changeStudentPassword\<close>, \<open>Students.resetPassword\<close>
  or \<open>Staff.resetPassword\<close> with its arguments and the clock reading of the call.  A call
  that throws has written nothing, and the next call proceeds.
  \<open>student_entries c\<close> and \<open>staff_entries e\<close> give the history entry an operation
  records for the student with code \<open>c\<close>, or for the staff member with e-mail \<open>e\<close>.
\<close>

datatype pw_op =
    ChangeStudentPassword string string int
  | ResetPassword string string string int
  | StaffResetPassword string string string int

fun pw_step :: "(string \<Rightarrow> string) \<Rightarrow> db \<Rightarrow> pw_op \<Rightarrow> db" where
  "pw_step H d (ChangeStudentPassword code newPassword now) =
     (case changeStudentPassword H d code newPassword now of Inr d' \<Rightarrow> d' | Inl err \<Rightarrow> d)"
| "pw_step H d (ResetPassword code newPassword by now) =
     (case resetPassword H d code newPassword by now of Inr d' \<Rightarrow> d' | Inl err \<Rightarrow> d)"
| "pw_step H d (StaffResetPassword email newPassword by now) =
     (case staff_resetPassword H d email newPassword by now of Inr d' \<Rightarrow> d' | Inl err \<Rightarrow> d)"

definition pw_run :: "(string \<Rightarrow> string) \<Rightarrow> db \<Rightarrow> pw_op list \<Rightarrow> db" where
  "pw_run H d ops = foldl (pw_step H) d ops"

fun student_entries :: "string \<Rightarrow> pw_op \<Rightarrow> pw_entry list" where
  "student_entries c (ChangeStudentPassword code newPassword now) =
     (if sanitize code = c then [\<lparr>changedAt = now, changedBy = ''self''\<rparr>] else [])"
| "student_entries c (ResetPassword code newPassword by now) =
     (if sanitize code = c then [\<lparr>changedAt = now, changedBy = by\<rparr>] else [])"
| "student_entries c (StaffResetPassword email newPassword by now) = []"

fun staff_entries :: "string \<Rightarrow> pw_op \<Rightarrow> pw_entry list" where
  "staff_entries e (StaffResetPassword email newPassword by now) =
     (if sanitize email = e then [\<lparr>changedAt = now, changedBy = by\<rparr>] else [])"
| "staff_entries e (ChangeStudentPassword code newPassword now) = []"
| "staff_entries e (ResetPassword code newPassword by now) = []"

text \<open>The history a row holds, and the most recent \<open>n\<close> elements of a list.\<close>

definition hist_of :: "history_col \<Rightarrow> pw_entry list" where
  "hist_of col = (case col of HistoryNull \<Rightarrow> [] | HistoryArray a \<Rightarrow> a | HistoryText h \<Rightarrow> h)"

definition holds_array :: "history_col \<Rightarrow> bool" where
  "holds_array col = (case col of HistoryArray a \<Rightarrow> True | HistoryNull \<Rightarrow> False
                      | HistoryText h \<Rightarrow> False)"

definition last_n :: "nat \<Rightarrow> 'a list \<Rightarrow> 'a list" where
  "last_n n xs = drop (length xs - n) xs"


section \<open>Card status engine\<close>

text \<open>
  The staff panel reads a card's state off its \<open>expiry\<close> text with the host's \<open>Date\<close>.
  The model follows ECMA-262: a time value is a number of milliseconds since the epoch,
  \<open>None\<close> standing for \<open>NaN\<close> (an invalid Date); \<open>Day\<close>, \<open>DayFromYear\<close>, \<open>MakeDay\<close>,
  \<open>MakeDate\<close> and \<open>TimeClip\<close> are the abstract operations of that name, with the day number
  as argument where the standard takes a time value.  Two things are fixed that the
  standard leaves to the host: local time is UTC plus a constant offset \<open>tza\<close> (a zone
  without daylight saving, as in Colombia), and \<open>new Date(text)\<close> reads only the
  standard's own date-time format, every other text giving an invalid Date.  All values
  are integers well inside the range where the host's floating point is exact, and a
  quotient by the length of a day is compared with integers only, so integer arithmetic
  gives the same answers.
\<close>

subsection \<open>Strings and numbers of the host language\<close>

text \<open>
  \<open>split_on\<close> is \<open>String.prototype.split\<close> with a one-character separator, \<open>at_index\<close>
  an array read (\<open>None\<close> for \<open>undefined\<close>), \<open>indexOf\<close> is \<open>Array.prototype.indexOf\<close>,
  \<open>parseInt\<close> the global of that name without a radix argument, and \<open>Number_toString\<close>
  the text of an integer (or of \<open>NaN\<close>) inside a template literal.
\<close>

fun split_on :: "char \<Rightarrow> string \<Rightarrow> string list" where
  "split_on c [] = [[]]"
| "split_on c (x # xs) =
     (if x = c then [] # split_on c xs
      else (case split_on c xs of p # ps \<Rightarrow> (x # p) # ps | [] \<Rightarrow> [[x]]))"

definition at_index :: "'a list \<Rightarrow> nat \<Rightarrow> 'a option" where
  "at_index xs i = (if i < length xs then Some (xs ! i) else None)"

fun indexOf_from :: "'a list \<Rightarrow> 'a \<Rightarrow> int \<Rightarrow> int" where
  "indexOf_from [] x i = - 1"
| "indexOf_from (y # ys) x i = (if y = x then i else indexOf_from ys x (i + 1))"

definition indexOf :: "'a list \<Rightarrow> 'a \<Rightarrow> int" where
  "indexOf xs x = indexOf_from xs x 0"

definition digit_of :: "char \<Rightarrow> nat option" where
  "digit_of c =
     (let n = (of_char c :: nat)
      in if 48 \<le> n \<and> n \<le> 57 then Some (n - 48)
         else if 97 \<le> n \<and> n \<le> 102 then Some (n - 87)
         else if 65 \<le> n \<and> n \<le> 70 then Some (n - 55)
         else None)"

definition is_radix_digit :: "nat \<Rightarrow> char \<Rightarrow> bool" where
  "is_radix_digit R c = (case digit_of c of Some v \<Rightarrow> v < R | None \<Rightarrow> False)"

definition digit_val :: "char \<Rightarrow> nat" where
  "digit_val c = (case digit_of c of Some v \<Rightarrow> v | None \<Rightarrow> 0)"

definition parseInt :: "string \<Rightarrow> int option" where
  "parseInt input =
     (let s = dropWhile is_space input;
          sign = (if s \<noteq> [] \<and> hd s = CHR ''-'' then - 1 else 1);
          s = (if s \<noteq> [] \<and> (hd s = CHR ''+'' \<or> hd s = CHR ''-'') then tl s else s);
          hex = (2 \<le> length s \<and> s ! 0 = CHR ''0'' \<and> (s ! 1 = CHR ''x'' \<or> s ! 1 = CHR ''X''));
          R = (if hex then 16 else 10);
          s = (if hex then drop 2 s else s);
          z = takeWhile (is_radix_digit R) s
      in if z = [] then None
         else Some (sign * int (foldl (\<lambda>a c. a * R + digit_val c) 0 z)))"

definition parseInt_at :: "string list \<Rightarrow> nat \<Rightarrow> int option" where
  "parseInt_at parts i = (case at_index parts i of None \<Rightarrow> None | Some p \<Rightarrow> parseInt p)"

function digits_of :: "nat \<Rightarrow> string" where
  "digits_of n =
     (if n < 10 then [char_of (48 + n)] else digits_of (n div 10) @ [char_of (48 + n mod 10)])"
  by pat_completeness auto
termination
  by (relation "measure id") auto

declare digits_of.simps [simp del]

definition Number_toString :: "int option \<Rightarrow> string" where
  "Number_toString v =
     (case v of None \<Rightarrow> ''NaN''
      | Some n \<Rightarrow> if n < 0 then CHR ''-'' # digits_of (nat (- n)) else digits_of (nat n))"

subsection \<open>Time values\<close>

definition msPerDay :: int where
  "msPerDay = 86400000"

definition Day :: "int \<Rightarrow> int" where
  "Day t = t div msPerDay"

definition DaysInYear :: "int \<Rightarrow> int" where
  "DaysInYear y =
     (if y mod 4 \<noteq> 0 then 365 else if y mod 100 \<noteq> 0 then 366
      else if y mod 400 \<noteq> 0 then 365 else 366)"

definition DayFromYear :: "int \<Rightarrow> int" where
  "DayFromYear y =
     365 * (y - 1970) + (y - 1969) div 4 - (y - 1901) div 100 + (y - 1601) div 400"

definition YearFromDay :: "int \<Rightarrow> int" where
  "YearFromDay d =
     (let y = 1970 + (400 * d) div 146097
      in if d < DayFromYear y then y - 1
         else if DayFromYear (y + 1) \<le> d then y + 1
         else y)"

definition InLeapYear :: "int \<Rightarrow> int" where
  "InLeapYear d = (if DaysInYear (YearFromDay d) = 366 then 1 else 0)"

definition DayWithinYear :: "int \<Rightarrow> int" where
  "DayWithinYear d = d - DayFromYear (YearFromDay d)"

definition MonthFromDay :: "int \<Rightarrow> int" where
  "MonthFromDay d =
     (let w = DayWithinYear d; l = InLeapYear d
      in if w < 31 then 0
         else if w < 59 + l then 1
         else if w < 90 + l then 2
         else if w < 120 + l then 3
         else if w < 151 + l then 4
         else if w < 181 + l then 5
         else if w < 212 + l then 6
         else if w < 243 + l then 7
         else if w < 273 + l then 8
         else if w < 304 + l then 9
         else if w < 334 + l then 10
         else 11)"

definition MonthStart :: "int \<Rightarrow> int \<Rightarrow> int" where
  "MonthStart m l =
     (if m = 0 then 0
      else if m = 1 then 31
      else if m = 2 then 59 + l
      else if m = 3 then 90 + l
      else if m = 4 then 120 + l
      else if m = 5 then 151 + l
      else if m = 6 then 181 + l
      else if m = 7 then 212 + l
      else if m = 8 then 243 + l
      else if m = 9 then 273 + l
      else if m = 10 then 304 + l
      else 334 + l)"

definition DateFromDay :: "int \<Rightarrow> int" where
  "DateFromDay d =
     (let w = DayWithinYear d; l = InLeapYear d; m = MonthFromDay d
      in if m = 0 then w + 1
         else if m = 1 then w - 30
         else if m = 2 then w - 58 - l
         else if m = 3 then w - 89 - l
         else if m = 4 then w - 119 - l
         else if m = 5 then w - 150 - l
         else if m = 6 then w - 180 - l
         else if m = 7 then w - 211 - l
         else if m = 8 then w - 242 - l
         else if m = 9 then w - 272 - l
         else if m = 10 then w - 303 - l
         else w - 333 - l)"

definition MakeDay :: "int \<Rightarrow> int \<Rightarrow> int \<Rightarrow> int" where
  "MakeDay year month date =
     (let ym = year + month div 12;
          mn = month mod 12
      in DayFromYear ym + MonthStart mn (if DaysInYear ym = 366 then 1 else 0) + date - 1)"

definition MakeDate :: "int \<Rightarrow> int \<Rightarrow> int" where
  "MakeDate day time = day * msPerDay + time"

definition TimeClip :: "int \<Rightarrow> int option" where
  "TimeClip t = (if \<bar>t\<bar> \<le> 8640000000000000 then Some t else None)"

definition LocalTime :: "int \<Rightarrow> int \<Rightarrow> int" where
  "LocalTime tza t = t + tza"

definition UTC :: "int \<Rightarrow> int \<Rightarrow> int" where
  "UTC tza t = t - tza"

subsection \<open>Date objects\<close>

text \<open>
  \<open>new Date(year, month, date)\<close> on the results of \<open>parseInt\<close>: local midnight, with a
  year from 0 to 99 read as 1900 plus that year.
\<close>

definition Date_ymd :: "int \<Rightarrow> int option \<Rightarrow> int \<Rightarrow> int option \<Rightarrow> int option" where
  "Date_ymd tza year month date =
     (case (year, date) of
        (Some y, Some dt) \<Rightarrow>
          (let yr = (if 0 \<le> y \<and> y \<le> 99 then 1900 + y else y)
           in TimeClip (UTC tza (MakeDate (MakeDay yr month dt) 0)))
      | _ \<Rightarrow> None)"

text \<open>
  \<open>new Date(text + 'T00:00:00')\<close>: the whole string is in the standard format exactly
  when \<open>text\<close> is one of its date-only forms (\<open>YYYY\<close>, \<open>YYYY-MM\<close>, \<open>YYYY-MM-DD\<close>, the year
  possibly in the six-digit signed form); it is then local midnight of that date, the
  day of the month ranging over 01 to 31 whatever the month.
\<close>

definition all_digits :: "string \<Rightarrow> bool" where
  "all_digits s = (\<forall>c \<in> set s. is_radix_digit 10 c)"

definition decimal :: "string \<Rightarrow> int" where
  "decimal s = int (foldl (\<lambda>a c. a * 10 + digit_val c) 0 s)"

definition parse_iso_date :: "string \<Rightarrow> (int \<times> int \<times> int) option" where
  "parse_iso_date s =
     (let signed = (s \<noteq> [] \<and> (hd s = CHR ''+'' \<or> hd s = CHR ''-''));
          body = (if signed then tl s else s);
          n = (if signed then 6 else 4);
          ys = take n body;
          rest = drop n body;
          y = (if signed \<and> hd s = CHR ''-'' then - decimal ys else decimal ys);
          ms = take 2 (drop 1 rest);
          ds = take 2 (drop 4 rest)
      in if length ys \<noteq> n \<or> \<not> all_digits ys \<or> (signed \<and> hd s = CHR ''-'' \<and> decimal ys = 0)
         then None
         else if rest = [] then Some (y, 1, 1)
         else if hd rest \<noteq> CHR ''-'' \<or> length ms \<noteq> 2 \<or> \<not> all_digits ms
                 \<or> decimal ms < 1 \<or> 12 < decimal ms then None
         else if length rest = 3 then Some (y, decimal ms, 1)
         else if length rest \<noteq> 6 \<or> rest ! 3 \<noteq> CHR ''-'' \<or> \<not> all_digits ds
                 \<or> decimal ds < 1 \<or> 31 < decimal ds then None
         else Some (y, decimal ms, decimal ds))"

definition Date_iso_midnight :: "int \<Rightarrow> string \<Rightarrow> int option" where
  "Date_iso_midnight tza s =
     (case parse_iso_date s of
        None \<Rightarrow> None
      | Some (y, m, d) \<Rightarrow> TimeClip (UTC tza (MakeDate (MakeDay y (m - 1) d) 0)))"

definition getFullYear :: "int \<Rightarrow> int option \<Rightarrow> int option" where
  "getFullYear tza tv = map_option (\<lambda>t. YearFromDay (Day (LocalTime tza t))) tv"

definition getMonth :: "int \<Rightarrow> int option \<Rightarrow> int option" where
  "getMonth tza tv = map_option (\<lambda>t. MonthFromDay (Day (LocalTime tza t))) tv"

definition getDate :: "int \<Rightarrow> int option \<Rightarrow> int option" where
  "getDate tza tv = map_option (\<lambda>t. DateFromDay (Day (LocalTime tza t))) tv"

definition setHours0 :: "int \<Rightarrow> int option \<Rightarrow> int option" where
  "setHours0 tza tv =
     (case tv of None \<Rightarrow> None
      | Some t \<Rightarrow> TimeClip (UTC tza (MakeDate (Day (LocalTime tza t)) 0)))"

definition date_less :: "int option \<Rightarrow> int option \<Rightarrow> bool" where
  "date_less a b = (case (a, b) of (Some x, Some y) \<Rightarrow> x < y | _ \<Rightarrow> False)"

subsection \<open>staff panel and utils.js: expiry dates\<close>

definition months :: "string list" where
  "months = [''ENERO'', ''FEBRERO'', ''MARZO'', ''ABRIL'', ''MAYO'', ''JUNIO'', ''JULIO'',
             ''AGOSTO'', ''SEPTIEMBRE'', ''OCTUBRE'', ''NOVIEMBRE'', ''DICIEMBRE'']"

text \<open>
  The block that \<open>isExpired\<close> and \<open>isExpiringSoon\<close> share: it leaves \<open>expiryDate\<close>
  undefined (\<open>None\<close>) for a long form whose month is unknown, and otherwise builds a Date,
  which may be invalid (\<open>Some None\<close>).
\<close>

definition expiryDate_of :: "int \<Rightarrow> string \<Rightarrow> int option option" where
  "expiryDate_of tza expiry' =
     (if CHR '' '' \<in> set expiry' then
        (let parts = split_on (CHR '' '') expiry';
             monthIndex = (case at_index parts 1 of None \<Rightarrow> - 1 | Some p \<Rightarrow> indexOf months p)
         in if monthIndex \<noteq> - 1
            then Some (Date_ymd tza (parseInt_at parts 2) monthIndex (parseInt_at parts 0))
            else None)
      else Some (Date_iso_midnight tza expiry'))"

definition isExpired :: "int \<Rightarrow> int \<Rightarrow> string \<Rightarrow> bool" where
  "isExpired tza now expiry' =
     (if expiry' = [] then False
      else (case expiryDate_of tza expiry' of
              None \<Rightarrow> False
            | Some expiryDate \<Rightarrow>
                (let today = setHours0 tza (Some now);
                     expiryDate0 = setHours0 tza expiryDate
                 in date_less expiryDate0 today)))"

definition isExpiringSoon :: "int \<Rightarrow> int \<Rightarrow> string \<Rightarrow> bool" where
  "isExpiringSoon tza now expiry' =
     (if expiry' = [] then False
      else (case expiryDate_of tza expiry' of
              None \<Rightarrow> False
            | Some None \<Rightarrow> False
            | Some (Some e) \<Rightarrow>
                (let daysUntilExpiry = - ((- (e - now)) div msPerDay)
                 in 0 \<le> daysUntilExpiry \<and> daysUntilExpiry \<le> 30)))"

text \<open>
  The badge of one row in \<open>renderStudentList\<close>.  \<open>isExpired\<close> and \<open>isExpiringSoon\<close> each
  read the clock themselves; \<open>now1\<close> and \<open>now2\<close> are the two readings.
\<close>

datatype badge = INACTIVO | EXPIRADO | POR_VENCER | ACTIVO

definition statusBadge :: "int \<Rightarrow> int \<Rightarrow> int \<Rightarrow> student \<Rightarrow> badge" where
  "statusBadge tza now1 now2 s =
     (let expired = isExpired tza now1 (expiry s);
          expiring = isExpiringSoon tza now2 (expiry s);
          isActive = (active s \<noteq> Some False)
      in if \<not> isActive then INACTIVO
         else if expired then EXPIRADO
         else if expiring then POR_VENCER
         else ACTIVO)"

definition month_name :: "int option \<Rightarrow> string" where
  "month_name m =
     (case m of None \<Rightarrow> ''undefined''
      | Some i \<Rightarrow> if 0 \<le> i \<and> i < 12 then months ! nat i else ''undefined'')"

definition formatDateToSpanish :: "int \<Rightarrow> string \<Rightarrow> string" where
  "formatDateToSpanish tza dateString =
     (if dateString = [] then []
      else if CHR '' '' \<in> set dateString then dateString
      else (let date = Date_iso_midnight tza dateString
            in Number_toString (getDate tza date) @ '' '' @ month_name (getMonth tza date)
                 @ '' '' @ Number_toString (getFullYear tza date)))"

section \<open>Sample data\<close>

text \<open>A stand-in digest and a small database, used to instantiate the results below.\<close>

definition ex_H :: "string \<Rightarrow> string" where
  "ex_H s = ''sha:'' @ s"

definition ex_student :: student where
  "ex_student = \<lparr>cedula = ''1006543210'', name = ''Ana'', lastname = ''Mosquera'',
     program = ''Sistemas'', expiry = ''15 ENERO 2030'', sede = ''Buenaventura'', rh = ''O+'',
     photo = None, password_hash = ex_H ''1006543210'', first_login = Some True,
     active = Some True, password_history = HistoryArray [], created_at = 1000, updated_at = 1000\<rparr>"

definition ex_db :: db where
  "ex_db = \<lparr>students = [''12300298'' \<mapsto> ex_student,
                         ''12300299'' \<mapsto> ex_student\<lparr>active := Some False\<rparr>],
            staff = Map.empty, loans = Map.empty\<rparr>"

definition ex_sd :: studentData where
  "ex_sd = \<lparr>sd_code = ''12300300'', sd_cedula = Some ''1006543211'', sd_name = Some ''Luz'',
     sd_lastname = Some ''Riascos'', sd_program = Some ''Sistemas'',
     sd_expiry = Some ''15 ENERO 2030'', sd_sede = Some ''Buenaventura'', sd_rh = None,
     sd_photo = None, sd_active = Some False\<rparr>"

definition ex_loan :: loan where
  "ex_loan = \<lparr>student_code = ''12300298'', student_name = ''Ana Mosquera'',
     category = ''biblioteca'', item_type = ''Libros'', item_description = None,
     staff_email = ''bib@unipacifico.edu.co'', staff_name = ''Bibliotecaria'',
     borrowed_at = 5000, returned_at = Some 6000, status = ''returned'',
     loan_created_at = 5000\<rparr>"

definition ex_db_loans :: db where
  "ex_db_loans = ex_db\<lparr>loans := [''L1'' \<mapsto> ex_loan]\<rparr>"

definition ex_ld :: loanData where
  "ex_ld = \<lparr>ld_studentCode = ''00000000'', ld_studentName = ''Nadie'',
     ld_category = ''biblioteca'', ld_itemType = ''Libros'', ld_itemDescription = None,
     ld_staffEmail = ''bib@unipacifico.edu.co'', ld_staffName = ''Bibliotecaria'',
     ld_borrowedAt = None\<rparr>"

definition ex_form :: loanForm where
  "ex_form = \<lparr>f_category = ''biblioteca'', f_studentCode = '' 00000000 '',
     f_libraryItem = ''Libros'', f_labItem = [], f_description = [], f_borrowedAt = None\<rparr>"

definition ex_session :: session where
  "ex_session = \<lparr>se_role = ''staff'', se_email = ''bib@unipacifico.edu.co'',
     se_name = ''Bibliotecaria''\<rparr>"

definition ex_staff :: staff_row where
  "ex_staff = \<lparr>st_id = ''adm@udp.edu'', st_name = ''Admin'', st_password_hash = ex_H ''clave'',
     st_password_history = HistoryArray [], st_created_at = 1000, st_updated_at = 1000\<rparr>"

definition ex_db_staff :: db where
  "ex_db_staff = ex_db\<lparr>staff := [''adm@udp.edu'' \<mapsto> ex_staff]\<rparr>"

text \<open>
  A database whose rows already hold a history as text (or none), and the fifteen resets
  of the password of the student that \<open>ex_sd\<close> creates.
\<close>

definition ex_db_text :: db where
  "ex_db_text = \<lparr>students = [''12300298'' \<mapsto> ex_student\<lparr>password_history := HistoryNull\<rparr>],
                 staff = [''adm@udp.edu'' \<mapsto> ex_staff\<lparr>st_password_history := HistoryText []\<rparr>],
                 loans = Map.empty\<rparr>"

definition ex_resets :: "pw_op list" where
  "ex_resets = map (\<lambda>t. ResetPassword ''12300300'' ''nueva'' ''adm@udp.edu'' t)
                 [1, 2, 3, 4, 5, 6, 7, 8, 9, 10, 11, 12, 13, 14, 15]"

definition ex_ops :: "pw_op list" where
  "ex_ops = concat (map (\<lambda>t. [ResetPassword ''12300298'' ''nueva'' ''adm@udp.edu'' t,
                               StaffResetPassword ''adm@udp.edu'' ''clave2'' ''staff'' t])
                     [1, 2, 3, 4, 5, 6, 7, 8, 9, 10, 11, 12])"

text \<open>Bogota time (UTC-5) and a reading of the clock on 2 November 2025, 05:30 there.\<close>

definition tz_bogota :: int where
  "tz_bogota = - 18000000"

definition now_ex :: int where
  "now_ex = 1762079400000"

section \<open>Verified properties\<close>

subsection \<open>Login and student records\<close>

text \<open>
  Claim C5.  A student whose \<open>active\<close> flag is false cannot log in: \<open>loginStudent\<close>
  fails for every password, with the inactive-card message when the password matches the
  stored hash and with the generic bad-credentials message otherwise; the two messages
  differ, a code that matches no row gets the generic one, and the login form shows a
  different dialog for each.
\<close>

theorem loginStudent_inactive:
  assumes "students d (sanitize c) = Some s" and "active s = Some False"
  shows "(\<exists>m. loginStudent H d c p = Inl (Message m))
       \<and> (H p = password_hash s \<longrightarrow> loginStudent H d c p = Inl (Message msg_inactivo))
       \<and> (H p \<noteq> password_hash s \<longrightarrow> loginStudent H d c p = Inl (Message msg_credenciales))
       \<and> (students d (sanitize c') = None \<longrightarrow>
            loginStudent H d c' p' = Inl (Message msg_credenciales))
       \<and> msg_inactivo \<noteq> msg_credenciales
       \<and> login_failure_modal msg_inactivo = ModalError ''Carnet Inactivo'' (Message msg_inactivo)
       \<and> login_failure_modal msg_credenciales
            = ModalError ''Acceso denegado'' (Message msg_credenciales)"
proof -
  have diff: "msg_inactivo \<noteq> msg_credenciales"
    by (simp add: msg_inactivo_def msg_credenciales_def)
  have m1: "login_failure_modal msg_inactivo = ModalError ''Carnet Inactivo'' (Message msg_inactivo)"
    by (simp add: login_failure_modal_def msg_inactivo_def)
  have m2: "login_failure_modal msg_credenciales
            = ModalError ''Acceso denegado'' (Message msg_credenciales)"
    by (simp add: login_failure_modal_def msg_credenciales_def)
  from assms diff m1 m2 show ?thesis
    by (simp add: loginStudent_def Let_def)
qed

theorem loginStudent_inactive_witness:
  "students ex_db (sanitize ''12300299'') = Some (ex_student\<lparr>active := Some False\<rparr>)
   \<and> active (ex_student\<lparr>active := Some False\<rparr>) = Some False
   \<and> ex_H ''1006543210'' = password_hash (ex_student\<lparr>active := Some False\<rparr>)
   \<and> loginStudent ex_H ex_db ''12300299'' ''1006543210'' = Inl (Message msg_inactivo)
   \<and> ex_H ''otra'' \<noteq> password_hash (ex_student\<lparr>active := Some False\<rparr>)
   \<and> loginStudent ex_H ex_db ''12300299'' ''otra'' = Inl (Message msg_credenciales)
   \<and> students ex_db (sanitize ''00000000'') = None
   \<and> loginStudent ex_H ex_db ''00000000'' ''x'' = Inl (Message msg_credenciales)"
proof -
  have a: "students ex_db (sanitize ''12300299'') = Some (ex_student\<lparr>active := Some False\<rparr>)"
    by (simp add: ex_db_def sanitize_def)
  have b: "active (ex_student\<lparr>active := Some False\<rparr>) = Some False" by simp
  have c: "ex_H ''1006543210'' = password_hash (ex_student\<lparr>active := Some False\<rparr>)"
    by (simp add: ex_student_def)
  have c': "ex_H ''otra'' \<noteq> password_hash (ex_student\<lparr>active := Some False\<rparr>)"
    by (simp add: ex_student_def ex_H_def)
  have e: "students ex_db (sanitize ''00000000'') = None"
    by (simp add: ex_db_def sanitize_def)
  from loginStudent_inactive [OF a b, of ex_H "''1006543210''" "''00000000''" "''x''"] c e
  have r1: "loginStudent ex_H ex_db ''12300299'' ''1006543210'' = Inl (Message msg_inactivo)"
    and r3: "loginStudent ex_H ex_db ''00000000'' ''x'' = Inl (Message msg_credenciales)"
    by simp_all
  from loginStudent_inactive [OF a b, of ex_H "''otra''" "''00000000''" "''x''"] c'
  have r2: "loginStudent ex_H ex_db ''12300299'' ''otra'' = Inl (Message msg_credenciales)"
    by simp
  show ?thesis by (intro conjI) (rule a b c r1 c' r2 e r3)+
qed

text \<open>
  Claim C4.  \<open>createOrUpdate\<close> with a non-empty code: when no row has the (sanitized)
  code, the new row stores the digest of the supplied \<open>cedula\<close>, or of the supplied code
  when the \<open>cedula\<close> is missing or empty; when a row exists, its stored digest is kept.
\<close>

theorem createOrUpdate_password_hash:
  assumes "sd_code sd \<noteq> []"
  shows "(students d (sanitize (sd_code sd)) = None \<longrightarrow>
           (\<exists>d' s'. createOrUpdate H d sd now = Inr d'
              \<and> students d' (sanitize (sd_code sd)) = Some s'
              \<and> password_hash s' =
                  (case sd_cedula sd of
                     None \<Rightarrow> H (sd_code sd)
                   | Some n \<Rightarrow> if n = [] then H (sd_code sd) else H n)))
       \<and> (\<forall>e. students d (sanitize (sd_code sd)) = Some e \<longrightarrow>
           (\<exists>d' s'. createOrUpdate H d sd now = Inr d'
              \<and> students d' (sanitize (sd_code sd)) = Some s'
              \<and> password_hash s' = password_hash e))"
  using assms
  by (auto simp add: createOrUpdate_def Let_def or_else_def split: option.splits)

theorem createOrUpdate_password_hash_witness:
  "sd_code ex_sd \<noteq> []
   \<and> students ex_db (sanitize (sd_code ex_sd)) = None
   \<and> (\<exists>d' s'. createOrUpdate ex_H ex_db ex_sd 2000 = Inr d'
          \<and> students d' ''12300300'' = Some s'
          \<and> password_hash s' = ex_H ''1006543211'')
   \<and> sd_code (ex_sd\<lparr>sd_code := ''12300298''\<rparr>) \<noteq> []
   \<and> students ex_db (sanitize (sd_code (ex_sd\<lparr>sd_code := ''12300298''\<rparr>))) = Some ex_student
   \<and> (\<exists>d' s'. createOrUpdate ex_H ex_db (ex_sd\<lparr>sd_code := ''12300298''\<rparr>) 2000 = Inr d'
          \<and> students d' ''12300298'' = Some s'
          \<and> password_hash s' = password_hash ex_student)"
proof -
  have a: "sd_code ex_sd \<noteq> []" by (simp add: ex_sd_def)
  have b: "students ex_db (sanitize (sd_code ex_sd)) = None"
    by (simp add: ex_sd_def ex_db_def sanitize_def)
  have s: "sanitize (sd_code ex_sd) = ''12300300''" by (simp add: ex_sd_def sanitize_def)
  have c: "sd_cedula ex_sd = Some ''1006543211''" by (simp add: ex_sd_def)
  have a': "sd_code (ex_sd\<lparr>sd_code := ''12300298''\<rparr>) \<noteq> []" by simp
  have b': "students ex_db (sanitize (sd_code (ex_sd\<lparr>sd_code := ''12300298''\<rparr>))) = Some ex_student"
    by (simp add: ex_db_def sanitize_def)
  have s': "sanitize (sd_code (ex_sd\<lparr>sd_code := ''12300298''\<rparr>)) = ''12300298''"
    by (simp add: sanitize_def)
  from createOrUpdate_password_hash [OF a, of ex_db ex_H 2000] b s c
  have n: "\<exists>d' s'. createOrUpdate ex_H ex_db ex_sd 2000 = Inr d'
          \<and> students d' ''12300300'' = Some s'
          \<and> password_hash s' = ex_H ''1006543211''" by simp
  from createOrUpdate_password_hash [OF a', of ex_db ex_H 2000] b' s'
  have u: "\<exists>d' s'. createOrUpdate ex_H ex_db (ex_sd\<lparr>sd_code := ''12300298''\<rparr>) 2000 = Inr d'
          \<and> students d' ''12300298'' = Some s'
          \<and> password_hash s' = password_hash ex_student" by simp
  from a b n a' b' u show ?thesis by blast
qed

text \<open>
  Claim C10.  A row created by \<open>createOrUpdate\<close> has \<open>first_login\<close> and \<open>active\<close> set to
  true whatever \<open>active\<close> the caller supplied; on an existing row the supplied \<open>active\<close>
  (true when missing) is stored and \<open>first_login\<close> is left as it was.
\<close>

theorem createOrUpdate_new_flags:
  assumes "sd_code sd \<noteq> []"
  shows "(students d (sanitize (sd_code sd)) = None \<longrightarrow>
           (\<exists>d' s'. createOrUpdate H d sd now = Inr d'
              \<and> students d' (sanitize (sd_code sd)) = Some s'
              \<and> first_login s' = Some True \<and> active s' = Some True))
       \<and> (\<forall>e. students d (sanitize (sd_code sd)) = Some e \<longrightarrow>
           (\<exists>d' s'. createOrUpdate H d sd now = Inr d'
              \<and> students d' (sanitize (sd_code sd)) = Some s'
              \<and> first_login s' = first_login e
              \<and> active s' = (case sd_active sd of Some a \<Rightarrow> Some a | None \<Rightarrow> Some True)))"
  using assms
  by (auto simp add: createOrUpdate_def Let_def split: option.splits)

theorem createOrUpdate_new_flags_witness:
  "sd_code ex_sd \<noteq> [] \<and> sd_active ex_sd = Some False
   \<and> students ex_db (sanitize (sd_code ex_sd)) = None
   \<and> (\<exists>d' s'. createOrUpdate ex_H ex_db ex_sd 2000 = Inr d'
          \<and> students d' ''12300300'' = Some s'
          \<and> first_login s' = Some True \<and> active s' = Some True)
   \<and> students ex_db (sanitize (sd_code (ex_sd\<lparr>sd_code := ''12300298''\<rparr>))) = Some ex_student
   \<and> (\<exists>d' s'. createOrUpdate ex_H ex_db (ex_sd\<lparr>sd_code := ''12300298''\<rparr>) 2000 = Inr d'
          \<and> students d' ''12300298'' = Some s'
          \<and> first_login s' = Some True \<and> active s' = Some False)"
proof -
  have a: "sd_code ex_sd \<noteq> []" by (simp add: ex_sd_def)
  have f: "sd_active ex_sd = Some False" by (simp add: ex_sd_def)
  have b: "students ex_db (sanitize (sd_code ex_sd)) = None"
    by (simp add: ex_sd_def ex_db_def sanitize_def)
  have s: "sanitize (sd_code ex_sd) = ''12300300''" by (simp add: ex_sd_def sanitize_def)
  have a': "sd_code (ex_sd\<lparr>sd_code := ''12300298''\<rparr>) \<noteq> []" by simp
  have b': "students ex_db (sanitize (sd_code (ex_sd\<lparr>sd_code := ''12300298''\<rparr>))) = Some ex_student"
    by (simp add: ex_db_def sanitize_def)
  have s': "sanitize (sd_code (ex_sd\<lparr>sd_code := ''12300298''\<rparr>)) = ''12300298''"
    by (simp add: sanitize_def)
  have fl: "first_login ex_student = Some True" by (simp add: ex_student_def)
  from createOrUpdate_new_flags [OF a, of ex_db ex_H 2000] b s
  have n: "\<exists>d' s'. createOrUpdate ex_H ex_db ex_sd 2000 = Inr d'
          \<and> students d' ''12300300'' = Some s'
          \<and> first_login s' = Some True \<and> active s' = Some True" by simp
  from createOrUpdate_new_flags [OF a', of ex_db ex_H 2000] b' s' f fl
  have u: "\<exists>d' s'. createOrUpdate ex_H ex_db (ex_sd\<lparr>sd_code := ''12300298''\<rparr>) 2000 = Inr d'
          \<and> students d' ''12300298'' = Some s'
          \<and> first_login s' = Some True \<and> active s' = Some False" by simp
  from a f b n b' u show ?thesis by blast
qed

subsection \<open>Loan ledger\<close>

text \<open>
  Claim C2.  \<open>returnLoan\<close> on an existing loan, whatever its current status: the loan
  gets status \<open>returned\<close> and \<open>returned_at\<close> the current time, every other column of it
  and every other loan, student and staff row stay as they were, and a second call
  overwrites \<open>returned_at\<close> with the later time.
\<close>

theorem returnLoan_frame:
  assumes "loans d loanId = Some l"
  shows "returnLoan d loanId now =
           (Inr (loanId, l\<lparr>status := ''returned'', returned_at := Some now\<rparr>),
            d\<lparr>loans := (loans d)(loanId \<mapsto> l\<lparr>status := ''returned'', returned_at := Some now\<rparr>)\<rparr>)
       \<and> (\<forall>l'. loans (snd (returnLoan d loanId now)) loanId = Some l' \<longrightarrow>
             status l' = ''returned'' \<and> returned_at l' = Some now
           \<and> student_code l' = student_code l \<and> student_name l' = student_name l
           \<and> category l' = category l \<and> item_type l' = item_type l
           \<and> item_description l' = item_description l \<and> staff_email l' = staff_email l
           \<and> staff_name l' = staff_name l \<and> borrowed_at l' = borrowed_at l
           \<and> loan_created_at l' = loan_created_at l)
       \<and> (\<forall>k. k \<noteq> loanId \<longrightarrow> loans (snd (returnLoan d loanId now)) k = loans d k)
       \<and> students (snd (returnLoan d loanId now)) = students d
       \<and> staff (snd (returnLoan d loanId now)) = staff d
       \<and> (\<forall>l'. loans (snd (returnLoan (snd (returnLoan d loanId now)) loanId later)) loanId = Some l'
             \<longrightarrow> status l' = ''returned'' \<and> returned_at l' = Some later)"
  using assms by (simp add: returnLoan_def Let_def)

theorem returnLoan_frame_witness:
  "loans ex_db_loans ''L1'' = Some ex_loan \<and> status ex_loan = ''returned''
   \<and> returned_at ex_loan = Some 6000
   \<and> returnLoan ex_db_loans ''L1'' 9000 =
         (Inr (''L1'', ex_loan\<lparr>status := ''returned'', returned_at := Some 9000\<rparr>),
          ex_db_loans\<lparr>loans := (loans ex_db_loans)(''L1'' \<mapsto>
             ex_loan\<lparr>status := ''returned'', returned_at := Some 9000\<rparr>)\<rparr>)
   \<and> ''L9'' \<noteq> ''L1''
   \<and> loans (snd (returnLoan ex_db_loans ''L1'' 9000)) ''L9'' = loans ex_db_loans ''L9''"
proof -
  have a: "loans ex_db_loans ''L1'' = Some ex_loan" by (simp add: ex_db_loans_def)
  have b: "status ex_loan = ''returned''" by (simp add: ex_loan_def)
  have c: "returned_at ex_loan = Some 6000" by (simp add: ex_loan_def)
  have k: "''L9'' \<noteq> ''L1''" by simp
  note t = returnLoan_frame [OF a, of 9000 12000]
  from t have r: "returnLoan ex_db_loans ''L1'' 9000 =
         (Inr (''L1'', ex_loan\<lparr>status := ''returned'', returned_at := Some 9000\<rparr>),
          ex_db_loans\<lparr>loans := (loans ex_db_loans)(''L1'' \<mapsto>
             ex_loan\<lparr>status := ''returned'', returned_at := Some 9000\<rparr>)\<rparr>)"
    by (rule conjunct1)
  from t have "\<forall>k. k \<noteq> ''L1'' \<longrightarrow>
      loans (snd (returnLoan ex_db_loans ''L1'' 9000)) k = loans ex_db_loans k"
    by (rule conjunct2 [THEN conjunct2, THEN conjunct1])
  from this [rule_format, OF k]
  have o: "loans (snd (returnLoan ex_db_loans ''L1'' 9000)) ''L9'' = loans ex_db_loans ''L9''" .
  show ?thesis by (intro conjI) (rule a b c k r o)+
qed

text \<open>
  Claim C9, as stated, fails for \<open>registerLoan\<close> itself: for a student code without a
  row it returns the gateway's foreign-key error, not the not-found failure.
\<close>

theorem registerLoan_not_found_counterexample:
  "students ex_db ''00000000'' = None
   \<and> registerLoan ex_db ex_ld ''L2'' 7000 = (Inl (GatewayMessage ForeignKeyViolation), ex_db)
   \<and> fst (registerLoan ex_db ex_ld ''L2'' 7000) \<noteq> Inl (Message msg_estudiante_no_encontrado)"
  by (simp add: registerLoan_def insert_loan_def ex_db_def ex_ld_def Let_def)

text \<open>
  Claim C9, amended.  For a student code without a row: \<open>registerLoan\<close> fails with the
  gateway's error for the constraint the insert violates (the check on \<open>category\<close>, else
  the primary key, else, when neither is violated, the foreign key on \<open>student_code\<close>) and
  creates no loan; \<open>validateStudent\<close> fails with the not-found message; and the loan form,
  which validates first, reports that message and creates no loan.
\<close>

theorem loan_for_unknown_student:
  "(students d (ld_studentCode ld) = None \<longrightarrow>
      registerLoan d ld new_id now =
        (Inl (GatewayMessage
               (if ld_category ld \<noteq> ''biblioteca'' \<and> ld_category ld \<noteq> ''laboratorio''
                then CheckViolation
                else if loans d new_id \<noteq> None then UniqueViolation
                else ForeignKeyViolation)), d))
   \<and> (students d (ld_studentCode ld) = None
        \<and> (ld_category ld = ''biblioteca'' \<or> ld_category ld = ''laboratorio'')
        \<and> loans d new_id = None \<longrightarrow>
      registerLoan d ld new_id now = (Inl (GatewayMessage ForeignKeyViolation), d))
   \<and> (students d c = None \<longrightarrow> validateStudent d c = Inl (Message msg_estudiante_no_encontrado))
   \<and> (students d (trim (f_studentCode f)) = None \<longrightarrow>
        handleLoanSubmit d f sess new_id now
          = (ModalError ''Error'' (Message msg_estudiante_no_encontrado), d))"
  by (auto simp add: registerLoan_def insert_loan_def validateStudent_def handleLoanSubmit_def
        Let_def)

theorem loan_for_unknown_student_witness:
  "students ex_db (ld_studentCode ex_ld) = None
   \<and> ld_category ex_ld = ''biblioteca''
   \<and> loans ex_db ''L2'' = None
   \<and> registerLoan ex_db ex_ld ''L2'' 7000 = (Inl (GatewayMessage ForeignKeyViolation), ex_db)
   \<and> ld_category (ex_ld\<lparr>ld_category := ''sala''\<rparr>) \<noteq> ''biblioteca''
   \<and> ld_category (ex_ld\<lparr>ld_category := ''sala''\<rparr>) \<noteq> ''laboratorio''
   \<and> registerLoan ex_db (ex_ld\<lparr>ld_category := ''sala''\<rparr>) ''L2'' 7000
        = (Inl (GatewayMessage CheckViolation), ex_db)
   \<and> students ex_db ''00000000'' = None
   \<and> validateStudent ex_db ''00000000'' = Inl (Message msg_estudiante_no_encontrado)
   \<and> students ex_db (trim (f_studentCode ex_form)) = None
   \<and> handleLoanSubmit ex_db ex_form (Some ex_session) ''L2'' 7000
          = (ModalError ''Error'' (Message msg_estudiante_no_encontrado), ex_db)"
proof -
  have a: "students ex_db (ld_studentCode ex_ld) = None" by (simp add: ex_db_def ex_ld_def)
  have a': "students ex_db (ld_studentCode (ex_ld\<lparr>ld_category := ''sala''\<rparr>)) = None"
    by (simp add: ex_db_def ex_ld_def)
  have k: "ld_category ex_ld = ''biblioteca''" by (simp add: ex_ld_def)
  have k1: "ld_category (ex_ld\<lparr>ld_category := ''sala''\<rparr>) \<noteq> ''biblioteca''" by simp
  have k2: "ld_category (ex_ld\<lparr>ld_category := ''sala''\<rparr>) \<noteq> ''laboratorio''" by simp
  have l: "loans ex_db ''L2'' = None" by (simp add: ex_db_def)
  have b: "students ex_db ''00000000'' = None" by (simp add: ex_db_def)
  have t: "students ex_db (trim (f_studentCode ex_form)) = None"
    by (simp add: ex_form_def trim_def is_space_def ex_db_def)
  note th = loan_for_unknown_student [of ex_db ex_ld "''L2''" 7000 "''00000000''" ex_form
      "Some ex_session"]
  note th' = loan_for_unknown_student [of ex_db "ex_ld\<lparr>ld_category := ''sala''\<rparr>" "''L2''" 7000
      "''00000000''" ex_form "Some ex_session"]
  from th [THEN conjunct2, THEN conjunct1] a k l
  have r1: "registerLoan ex_db ex_ld ''L2'' 7000 = (Inl (GatewayMessage ForeignKeyViolation), ex_db)"
    by simp
  from th' [THEN conjunct1, rule_format, OF a'] k1 k2
  have r2: "registerLoan ex_db (ex_ld\<lparr>ld_category := ''sala''\<rparr>) ''L2'' 7000
        = (Inl (GatewayMessage CheckViolation), ex_db)"
    by (simp only: simp_thms if_True)
  from th [THEN conjunct2, THEN conjunct2, THEN conjunct1, rule_format, OF b]
  have r3: "validateStudent ex_db ''00000000'' = Inl (Message msg_estudiante_no_encontrado)" .
  from th [THEN conjunct2, THEN conjunct2, THEN conjunct2, rule_format, OF t]
  have r4: "handleLoanSubmit ex_db ex_form (Some ex_session) ''L2'' 7000
          = (ModalError ''Error'' (Message msg_estudiante_no_encontrado), ex_db)" .
  show ?thesis by (intro conjI) (rule a k l r1 k1 k2 r2 b r3 t r4)+
qed

subsection \<open>Password history\<close>

lemma last_n_absorb: "last_n k (last_n k xs @ ys) = last_n k (xs @ ys)"
  by (cases "length xs \<le> k") (simp_all add: last_n_def add.commute)

lemma length_last_n: "length (last_n k xs) \<le> k"
  by (simp add: last_n_def)

lemma last_n_append_long: "k \<le> length ys \<Longrightarrow> last_n k (xs @ ys) = last_n k ys"
  by (simp add: last_n_def)

lemma parse_history_array: "holds_array col \<Longrightarrow> parse_history col = Inl JsonSyntaxError"
  by (cases col) (simp_all add: holds_array_def parse_history_def)

lemma parse_history_text: "\<not> holds_array col \<Longrightarrow> parse_history col = Inr (hist_of col)"
  by (cases col) (simp_all add: holds_array_def parse_history_def hist_of_def)

lemma student_frozen_step:
  assumes "students d c = Some s" and "holds_array (password_history s)"
  shows "students (pw_step H d op) c = Some s"
proof (cases op)
  case (ChangeStudentPassword code p t)
  with assms show ?thesis
    by (cases "sanitize code = c")
      (auto simp add: changeStudentPassword_def Let_def parse_history_array
         split: option.splits sum.splits)
next
  case (ResetPassword code p b t)
  with assms show ?thesis
    by (cases "sanitize code = c")
      (auto simp add: resetPassword_def Let_def parse_history_array
         split: option.splits sum.splits)
next
  case (StaffResetPassword em p b t)
  with assms show ?thesis
    by (auto simp add: staff_resetPassword_def Let_def split: option.splits sum.splits)
qed

lemma student_frozen_run:
  "students d c = Some s \<Longrightarrow> holds_array (password_history s) \<Longrightarrow>
   students (pw_run H d ops) c = Some s"
proof (induction ops arbitrary: d)
  case Nil
  then show ?case by (simp add: pw_run_def)
next
  case (Cons op ops)
  from student_frozen_step [OF Cons.prems, of H op]
  have "students (pw_step H d op) c = Some s" .
  from Cons.IH [OF this Cons.prems(2)] show ?case by (simp add: pw_run_def)
qed

text \<open>
  Claim C3 fails on the code.  A row whose history column holds an array, as every
  row does that \<open>createOrUpdate\<close> inserted, makes \<open>changeStudentPassword\<close> and both
  \<open>resetPassword\<close> throw the \<open>SyntaxError\<close> of \<open>JSON.parse\<close> before anything is written; after
  \<open>createOrUpdate\<close> has created a student, no sequence of password operations changes
  that student's row, so its history stays empty.
\<close>

theorem password_change_throws_on_array:
  "(students d (sanitize code) = Some s \<and> holds_array (password_history s) \<longrightarrow>
      changeStudentPassword H d code newPassword now = Inl JsonSyntaxError
      \<and> resetPassword H d code newPassword by now = Inl JsonSyntaxError)
   \<and> (staff d (sanitize em) = Some r \<and> holds_array (st_password_history r) \<longrightarrow>
        staff_resetPassword H d em newPassword by now = Inl JsonSyntaxError)
   \<and> (sd_code sd \<noteq> [] \<and> students d (sanitize (sd_code sd)) = None
        \<and> createOrUpdate H d sd created = Inr d' \<longrightarrow>
        (\<exists>s'. students d' (sanitize (sd_code sd)) = Some s'
           \<and> password_history s' = HistoryArray []
           \<and> students (pw_run H d' ops) (sanitize (sd_code sd)) = Some s'))"
proof (intro conjI impI)
  assume a: "students d (sanitize code) = Some s \<and> holds_array (password_history s)"
  then show "changeStudentPassword H d code newPassword now = Inl JsonSyntaxError"
    by (simp add: changeStudentPassword_def Let_def parse_history_array)
  from a show "resetPassword H d code newPassword by now = Inl JsonSyntaxError"
    by (simp add: resetPassword_def Let_def parse_history_array)
next
  assume "staff d (sanitize em) = Some r \<and> holds_array (st_password_history r)"
  then show "staff_resetPassword H d em newPassword by now = Inl JsonSyntaxError"
    by (simp add: staff_resetPassword_def Let_def parse_history_array)
next
  assume a: "sd_code sd \<noteq> [] \<and> students d (sanitize (sd_code sd)) = None
        \<and> createOrUpdate H d sd created = Inr d'"
  then obtain s' where s': "students d' (sanitize (sd_code sd)) = Some s'"
    and h: "password_history s' = HistoryArray []"
    by (auto simp add: createOrUpdate_def Let_def)
  from h have "holds_array (password_history s')" by (simp add: holds_array_def)
  from student_frozen_run [OF s' this, of H ops] s' h
  show "\<exists>s'. students d' (sanitize (sd_code sd)) = Some s'
           \<and> password_history s' = HistoryArray []
           \<and> students (pw_run H d' ops) (sanitize (sd_code sd)) = Some s'"
    by simp
qed

theorem password_change_throws_on_array_witness:
  "sd_code ex_sd \<noteq> [] \<and> students ex_db (sanitize (sd_code ex_sd)) = None
   \<and> (\<exists>d' s'. createOrUpdate ex_H ex_db ex_sd 2000 = Inr d'
         \<and> students d' ''12300300'' = Some s'
         \<and> password_history s' = HistoryArray []
         \<and> holds_array (password_history s')
         \<and> changeStudentPassword ex_H d' ''12300300'' ''nueva'' 3000 = Inl JsonSyntaxError
         \<and> resetPassword ex_H d' ''12300300'' ''nueva'' ''adm@udp.edu'' 3000
              = Inl JsonSyntaxError
         \<and> students (pw_run ex_H d' ex_resets) ''12300300'' = Some s')
   \<and> staff ex_db_staff (sanitize ''adm@udp.edu'') = Some ex_staff
   \<and> holds_array (st_password_history ex_staff)
   \<and> staff_resetPassword ex_H ex_db_staff ''adm@udp.edu'' ''clave2'' ''staff'' 3000
        = Inl JsonSyntaxError"
proof -
  have a: "sd_code ex_sd \<noteq> []" by (simp add: ex_sd_def)
  have b: "students ex_db (sanitize (sd_code ex_sd)) = None"
    by (simp add: ex_sd_def ex_db_def sanitize_def)
  have k: "sanitize (sd_code ex_sd) = ''12300300''" by (simp add: ex_sd_def sanitize_def)
  have k': "sanitize ''12300300'' = ''12300300''" by (simp add: sanitize_def)
  from a b obtain d' where c: "createOrUpdate ex_H ex_db ex_sd 2000 = Inr d'"
    by (auto simp add: createOrUpdate_def Let_def)
  from password_change_throws_on_array [THEN conjunct2, THEN conjunct2, rule_format, of ex_sd
      ex_db ex_H 2000 d' ex_resets] a b c
  obtain s' where s': "students d' ''12300300'' = Some s'"
    and h: "password_history s' = HistoryArray []"
    and run: "students (pw_run ex_H d' ex_resets) ''12300300'' = Some s'"
    unfolding k by blast
  from h have ha: "holds_array (password_history s')" by (simp add: holds_array_def)
  from password_change_throws_on_array [THEN conjunct1, rule_format, of d' "''12300300''" s'
      ex_H "''nueva''" 3000 "''adm@udp.edu''"] s' ha
  have t1: "changeStudentPassword ex_H d' ''12300300'' ''nueva'' 3000 = Inl JsonSyntaxError"
    and t2: "resetPassword ex_H d' ''12300300'' ''nueva'' ''adm@udp.edu'' 3000
              = Inl JsonSyntaxError"
    unfolding k' by simp_all
  have e: "staff ex_db_staff (sanitize ''adm@udp.edu'') = Some ex_staff"
    by (simp add: ex_db_staff_def sanitize_def)
  have f: "holds_array (st_password_history ex_staff)"
    by (simp add: ex_staff_def holds_array_def)
  from password_change_throws_on_array [THEN conjunct2, THEN conjunct1, rule_format,
      of ex_db_staff "''adm@udp.edu''" ex_staff ex_H "''clave2''" "''staff''" 3000] e f
  have t3: "staff_resetPassword ex_H ex_db_staff ''adm@udp.edu'' ''clave2'' ''staff'' 3000
        = Inl JsonSyntaxError" by simp
  from c s' h ha t1 t2 run
  have x: "\<exists>d' s'. createOrUpdate ex_H ex_db ex_sd 2000 = Inr d'
         \<and> students d' ''12300300'' = Some s'
         \<and> password_history s' = HistoryArray []
         \<and> holds_array (password_history s')
         \<and> changeStudentPassword ex_H d' ''12300300'' ''nueva'' 3000 = Inl JsonSyntaxError
         \<and> resetPassword ex_H d' ''12300300'' ''nueva'' ''adm@udp.edu'' 3000
              = Inl JsonSyntaxError
         \<and> students (pw_run ex_H d' ex_resets) ''12300300'' = Some s'"
    by - (rule exI [of _ d'], rule exI [of _ s'], simp)
  show ?thesis by (intro conjI) (rule a b x e f t3)+
qed

text \<open>
  Once the column holds text (or nothing), the operations do what they are written for:
  a row's history is the most recent ten entries of its previous history followed by the
  entries of the operations that addressed it.
\<close>

lemma student_step:
  assumes "students d c = Some s" and "\<not> holds_array (password_history s)"
  shows "\<exists>s'. students (pw_step H d op) c = Some s'
           \<and> \<not> holds_array (password_history s')
           \<and> password_history s' =
               (if student_entries c op = [] then password_history s
                else HistoryText (last_n 10 (hist_of (password_history s) @ student_entries c op)))"
proof (cases op)
  case (ChangeStudentPassword code p t)
  show ?thesis
  proof (cases "sanitize code = c")
    case True
    with assms ChangeStudentPassword show ?thesis
      by (simp add: changeStudentPassword_def Let_def parse_history_text slice_from_def last_n_def
            nat_diff_distrib holds_array_def)
  next
    case False
    with assms ChangeStudentPassword show ?thesis
      by (simp add: changeStudentPassword_def Let_def split: option.splits sum.splits)
  qed
next
  case (ResetPassword code p b t)
  show ?thesis
  proof (cases "sanitize code = c")
    case True
    with assms ResetPassword show ?thesis
      by (simp add: resetPassword_def Let_def parse_history_text slice_from_def last_n_def
            nat_diff_distrib holds_array_def)
  next
    case False
    with assms ResetPassword show ?thesis
      by (simp add: resetPassword_def Let_def split: option.splits sum.splits)
  qed
next
  case (StaffResetPassword em p b t)
  with assms show ?thesis
    by (simp add: staff_resetPassword_def Let_def split: option.splits sum.splits)
qed

lemma student_run:
  "students d c = Some s \<Longrightarrow> \<not> holds_array (password_history s) \<Longrightarrow>
   \<exists>s'. students (pw_run H d ops) c = Some s'
      \<and> password_history s' =
          (if concat (map (student_entries c) ops) = [] then password_history s
           else HistoryText (last_n 10 (hist_of (password_history s)
                  @ concat (map (student_entries c) ops))))"
proof (induction ops arbitrary: d s)
  case Nil
  then show ?case by (simp add: pw_run_def)
next
  case (Cons op ops)
  define es where "es = concat (map (student_entries c) ops)"
  define e where "e = student_entries c op"
  define h where "h = hist_of (password_history s)"
  from student_step [OF Cons.prems, of H op] obtain s1 where
    s1: "students (pw_step H d op) c = Some s1"
    and n1: "\<not> holds_array (password_history s1)"
    and h1: "password_history s1 =
               (if e = [] then password_history s else HistoryText (last_n 10 (h @ e)))"
    unfolding e_def h_def by blast
  from Cons.IH [OF s1 n1] obtain s' where
    s': "students (pw_run H (pw_step H d op) ops) c = Some s'"
    and h': "password_history s' =
          (if es = [] then password_history s1
           else HistoryText (last_n 10 (hist_of (password_history s1) @ es)))"
    unfolding es_def by blast
  have run: "pw_run H d (op # ops) = pw_run H (pw_step H d op) ops"
    by (simp add: pw_run_def)
  have cc: "concat (map (student_entries c) (op # ops)) = e @ es"
    by (simp add: e_def es_def)
  have "password_history s' =
      (if e @ es = [] then password_history s else HistoryText (last_n 10 (h @ e @ es)))"
  proof (cases "e = []")
    case True
    with h1 h' show ?thesis by (simp add: h_def)
  next
    case False
    with h1 have hs1: "hist_of (password_history s1) = last_n 10 (h @ e)"
      by (simp add: hist_of_def)
    show ?thesis
    proof (cases "es = []")
      case True
      with False h1 h' show ?thesis by simp
    next
      case False
      with \<open>e \<noteq> []\<close> h' hs1 last_n_absorb [of 10 "h @ e" es] show ?thesis by simp
    qed
  qed
  with s' run cc show ?case unfolding h_def by simp
qed

lemma staff_step:
  assumes r: "staff d e = Some r" and na: "\<not> holds_array (st_password_history r)"
    and uniq: "\<forall>e' r'. staff d e' = Some r' \<and> st_id r' = st_id r \<longrightarrow> e' = e"
  shows "\<exists>r1. staff (pw_step H d op) e = Some r1 \<and> st_id r1 = st_id r
           \<and> \<not> holds_array (st_password_history r1)
           \<and> st_password_history r1 =
               (if staff_entries e op = [] then st_password_history r
                else HistoryText (last_n 10 (hist_of (st_password_history r) @ staff_entries e op)))
           \<and> (\<forall>e' r'. staff (pw_step H d op) e' = Some r' \<and> st_id r' = st_id r1 \<longrightarrow> e' = e)"
proof -
  have uniq_rf: "\<And>e' r'. staff d e' = Some r' \<Longrightarrow> st_id r' = st_id r \<Longrightarrow> e' = e"
    using uniq by blast
  show ?thesis
  proof (cases op)
    case (ChangeStudentPassword code p t)
    with r na show ?thesis
      by (auto simp add: changeStudentPassword_def Let_def split: option.splits sum.splits
            dest: uniq_rf)
  next
    case (ResetPassword code p b t)
    with r na show ?thesis
      by (auto simp add: resetPassword_def Let_def split: option.splits sum.splits
            dest: uniq_rf)
  next
    case (StaffResetPassword em p b t)
    show ?thesis
    proof (cases "sanitize em = e")
      case True
      from True r na StaffResetPassword show ?thesis
        by (auto simp add: staff_resetPassword_def Let_def parse_history_text slice_from_def
              last_n_def nat_diff_distrib holds_array_def
              split: option.splits if_splits dest: uniq_rf)
    next
      case False
      show ?thesis
      proof (cases "staff d (sanitize em)")
        case None
        with False r na StaffResetPassword show ?thesis
          by (auto simp add: staff_resetPassword_def Let_def dest: uniq_rf)
      next
        case (Some r2)
        from uniq_rf [OF Some] False have ne: "st_id r \<noteq> st_id r2" by metis
        from False r na Some ne StaffResetPassword show ?thesis
          by (auto simp add: staff_resetPassword_def Let_def
                split: option.splits if_splits sum.splits dest: uniq_rf)
      qed
    qed
  qed
qed

lemma staff_run:
  "staff d e = Some r \<Longrightarrow> \<not> holds_array (st_password_history r) \<Longrightarrow>
   \<forall>e' r'. staff d e' = Some r' \<and> st_id r' = st_id r \<longrightarrow> e' = e \<Longrightarrow>
   \<exists>r'. staff (pw_run H d ops) e = Some r'
      \<and> st_password_history r' =
          (if concat (map (staff_entries e) ops) = [] then st_password_history r
           else HistoryText (last_n 10 (hist_of (st_password_history r)
                  @ concat (map (staff_entries e) ops))))"
proof (induction ops arbitrary: d r)
  case Nil
  then show ?case by (simp add: pw_run_def)
next
  case (Cons op ops)
  define es where "es = concat (map (staff_entries e) ops)"
  define en where "en = staff_entries e op"
  define h where "h = hist_of (st_password_history r)"
  from staff_step [OF Cons.prems, of H op] obtain r1 where
    r1: "staff (pw_step H d op) e = Some r1"
    and n1: "\<not> holds_array (st_password_history r1)"
    and h1: "st_password_history r1 =
               (if en = [] then st_password_history r else HistoryText (last_n 10 (h @ en)))"
    and u1: "\<forall>e' r'. staff (pw_step H d op) e' = Some r' \<and> st_id r' = st_id r1 \<longrightarrow> e' = e"
    unfolding en_def h_def by blast
  from Cons.IH [OF r1 n1 u1] obtain r' where
    r': "staff (pw_run H (pw_step H d op) ops) e = Some r'"
    and h': "st_password_history r' =
          (if es = [] then st_password_history r1
           else HistoryText (last_n 10 (hist_of (st_password_history r1) @ es)))"
    unfolding es_def by blast
  have run: "pw_run H d (op # ops) = pw_run H (pw_step H d op) ops"
    by (simp add: pw_run_def)
  have cc: "concat (map (staff_entries e) (op # ops)) = en @ es"
    by (simp add: en_def es_def)
  have "st_password_history r' =
      (if en @ es = [] then st_password_history r else HistoryText (last_n 10 (h @ en @ es)))"
  proof (cases "en = []")
    case True
    with h1 h' show ?thesis by (simp add: h_def)
  next
    case False
    with h1 have hs1: "hist_of (st_password_history r1) = last_n 10 (h @ en)"
      by (simp add: hist_of_def)
    show ?thesis
    proof (cases "es = []")
      case True
      with False h1 h' show ?thesis by simp
    next
      case False
      with \<open>en \<noteq> []\<close> h' hs1 last_n_absorb [of 10 "h @ en" es] show ?thesis by simp
    qed
  qed
  with r' run cc show ?case unfolding h_def by simp
qed

text \<open>
  For a student, and for a staff member whose \<open>id\<close> no other row shares, whose history
  column does not hold an array: after any sequence of password operations the column
  holds, as text, the most recent ten entries of the previous history followed by the
  entries of the operations that addressed the row; at most ten entries once any
  operation addressed it, and exactly the last ten after ten or more.
\<close>

theorem password_history_text_rows:
  "(students d c = Some s \<and> \<not> holds_array (password_history s) \<longrightarrow>
      (\<exists>s'. students (pw_run H d ops) c = Some s'
         \<and> password_history s' =
             (if concat (map (student_entries c) ops) = [] then password_history s
              else HistoryText (last_n 10 (hist_of (password_history s)
                           @ concat (map (student_entries c) ops))))
         \<and> (concat (map (student_entries c) ops) \<noteq> [] \<longrightarrow>
              length (hist_of (password_history s')) \<le> 10)
         \<and> (10 \<le> length (concat (map (student_entries c) ops)) \<longrightarrow>
              hist_of (password_history s') = last_n 10 (concat (map (student_entries c) ops)))))
   \<and> (staff d e = Some r \<and> \<not> holds_array (st_password_history r)
        \<and> (\<forall>e' r'. staff d e' = Some r' \<and> st_id r' = st_id r \<longrightarrow> e' = e) \<longrightarrow>
      (\<exists>r'. staff (pw_run H d ops) e = Some r'
         \<and> st_password_history r' =
             (if concat (map (staff_entries e) ops) = [] then st_password_history r
              else HistoryText (last_n 10 (hist_of (st_password_history r)
                           @ concat (map (staff_entries e) ops))))
         \<and> (concat (map (staff_entries e) ops) \<noteq> [] \<longrightarrow>
              length (hist_of (st_password_history r')) \<le> 10)
         \<and> (10 \<le> length (concat (map (staff_entries e) ops)) \<longrightarrow>
              hist_of (st_password_history r') = last_n 10 (concat (map (staff_entries e) ops)))))"
proof (intro conjI impI)
  assume "students d c = Some s \<and> \<not> holds_array (password_history s)"
  then have a: "students d c = Some s" and n: "\<not> holds_array (password_history s)"
    by simp_all
  define es where "es = concat (map (student_entries c) ops)"
  from student_run [OF a n, of H ops] obtain s' where
    s': "students (pw_run H d ops) c = Some s'"
    and h': "password_history s' = (if es = [] then password_history s
              else HistoryText (last_n 10 (hist_of (password_history s) @ es)))"
    unfolding es_def by blast
  have b: "es \<noteq> [] \<longrightarrow> length (hist_of (password_history s')) \<le> 10"
    using h' by (simp add: hist_of_def length_last_n)
  have l: "10 \<le> length es \<longrightarrow> hist_of (password_history s') = last_n 10 es"
  proof
    assume "10 \<le> length es"
    then have "es \<noteq> []" by auto
    with h' \<open>10 \<le> length es\<close> show "hist_of (password_history s') = last_n 10 es"
      by (simp add: hist_of_def last_n_append_long)
  qed
  from s' h' b l show "\<exists>s'. students (pw_run H d ops) c = Some s'
         \<and> password_history s' =
             (if concat (map (student_entries c) ops) = [] then password_history s
              else HistoryText (last_n 10 (hist_of (password_history s)
                           @ concat (map (student_entries c) ops))))
         \<and> (concat (map (student_entries c) ops) \<noteq> [] \<longrightarrow>
              length (hist_of (password_history s')) \<le> 10)
         \<and> (10 \<le> length (concat (map (student_entries c) ops)) \<longrightarrow>
              hist_of (password_history s') = last_n 10 (concat (map (student_entries c) ops)))"
    unfolding es_def by blast
next
  assume "staff d e = Some r \<and> \<not> holds_array (st_password_history r)
        \<and> (\<forall>e' r'. staff d e' = Some r' \<and> st_id r' = st_id r \<longrightarrow> e' = e)"
  then have a: "staff d e = Some r" and n: "\<not> holds_array (st_password_history r)"
    and u: "\<forall>e' r'. staff d e' = Some r' \<and> st_id r' = st_id r \<longrightarrow> e' = e"
    by blast+
  define es where "es = concat (map (staff_entries e) ops)"
  from staff_run [OF a n u, of H ops] obtain r' where
    r': "staff (pw_run H d ops) e = Some r'"
    and h': "st_password_history r' = (if es = [] then st_password_history r
              else HistoryText (last_n 10 (hist_of (st_password_history r) @ es)))"
    unfolding es_def by blast
  have b: "es \<noteq> [] \<longrightarrow> length (hist_of (st_password_history r')) \<le> 10"
    using h' by (simp add: hist_of_def length_last_n)
  have l: "10 \<le> length es \<longrightarrow> hist_of (st_password_history r') = last_n 10 es"
  proof
    assume "10 \<le> length es"
    then have "es \<noteq> []" by auto
    with h' \<open>10 \<le> length es\<close> show "hist_of (st_password_history r') = last_n 10 es"
      by (simp add: hist_of_def last_n_append_long)
  qed
  from r' h' b l show "\<exists>r'. staff (pw_run H d ops) e = Some r'
         \<and> st_password_history r' =
             (if concat (map (staff_entries e) ops) = [] then st_password_history r
              else HistoryText (last_n 10 (hist_of (st_password_history r)
                           @ concat (map (staff_entries e) ops))))
         \<and> (concat (map (staff_entries e) ops) \<noteq> [] \<longrightarrow>
              length (hist_of (st_password_history r')) \<le> 10)
         \<and> (10 \<le> length (concat (map (staff_entries e) ops)) \<longrightarrow>
              hist_of (st_password_history r') = last_n 10 (concat (map (staff_entries e) ops)))"
    unfolding es_def by blast
qed

theorem password_history_text_rows_witness:
  "students ex_db_text ''12300298'' = Some (ex_student\<lparr>password_history := HistoryNull\<rparr>)
   \<and> \<not> holds_array (password_history (ex_student\<lparr>password_history := HistoryNull\<rparr>))
   \<and> map changedAt (concat (map (student_entries ''12300298'') ex_ops))
        = [1, 2, 3, 4, 5, 6, 7, 8, 9, 10, 11, 12]
   \<and> (\<exists>s'. students (pw_run ex_H ex_db_text ex_ops) ''12300298'' = Some s'
         \<and> map changedAt (hist_of (password_history s')) = [3, 4, 5, 6, 7, 8, 9, 10, 11, 12])
   \<and> staff ex_db_text ''adm@udp.edu'' = Some (ex_staff\<lparr>st_password_history := HistoryText []\<rparr>)
   \<and> \<not> holds_array (st_password_history (ex_staff\<lparr>st_password_history := HistoryText []\<rparr>))
   \<and> (\<exists>r'. staff (pw_run ex_H ex_db_text ex_ops) ''adm@udp.edu'' = Some r'
         \<and> map changedAt (hist_of (st_password_history r')) = [3, 4, 5, 6, 7, 8, 9, 10, 11, 12])"
proof -
  have a: "students ex_db_text ''12300298'' = Some (ex_student\<lparr>password_history := HistoryNull\<rparr>)"
    by (simp add: ex_db_text_def)
  have na: "\<not> holds_array (password_history (ex_student\<lparr>password_history := HistoryNull\<rparr>))"
    by (simp add: holds_array_def)
  have es: "concat (map (student_entries ''12300298'') ex_ops)
      = map (\<lambda>t. \<lparr>changedAt = t, changedBy = ''adm@udp.edu''\<rparr>) [1, 2, 3, 4, 5, 6, 7, 8, 9, 10, 11, 12]"
    by (simp add: ex_ops_def sanitize_def)
  have b: "staff ex_db_text ''adm@udp.edu'' = Some (ex_staff\<lparr>st_password_history := HistoryText []\<rparr>)"
    by (simp add: ex_db_text_def)
  have nb: "\<not> holds_array (st_password_history (ex_staff\<lparr>st_password_history := HistoryText []\<rparr>))"
    by (simp add: holds_array_def)
  have u: "\<forall>e' r'. staff ex_db_text e' = Some r'
         \<and> st_id r' = st_id (ex_staff\<lparr>st_password_history := HistoryText []\<rparr>)
         \<longrightarrow> e' = ''adm@udp.edu''"
    by (simp add: ex_db_text_def split: if_splits)
  have fs: "concat (map (staff_entries ''adm@udp.edu'') ex_ops)
      = map (\<lambda>t. \<lparr>changedAt = t, changedBy = ''staff''\<rparr>) [1, 2, 3, 4, 5, 6, 7, 8, 9, 10, 11, 12]"
    by (simp add: ex_ops_def sanitize_def)
  note t = password_history_text_rows [of ex_db_text "''12300298''"
      "ex_student\<lparr>password_history := HistoryNull\<rparr>" ex_H ex_ops
      "''adm@udp.edu''" "ex_staff\<lparr>st_password_history := HistoryText []\<rparr>"]
  from t a na obtain s' where
    s': "students (pw_run ex_H ex_db_text ex_ops) ''12300298'' = Some s'"
    and hs: "10 \<le> length (concat (map (student_entries ''12300298'') ex_ops)) \<longrightarrow>
              hist_of (password_history s')
              = last_n 10 (concat (map (student_entries ''12300298'') ex_ops))"
    by blast
  from hs have "map changedAt (hist_of (password_history s')) = [3, 4, 5, 6, 7, 8, 9, 10, 11, 12]"
    unfolding es by (simp add: last_n_def)
  with s' have c1: "\<exists>s'. students (pw_run ex_H ex_db_text ex_ops) ''12300298'' = Some s'
         \<and> map changedAt (hist_of (password_history s')) = [3, 4, 5, 6, 7, 8, 9, 10, 11, 12]"
    by - (rule exI [of _ s'], simp)
  from t b nb u obtain r' where
    r': "staff (pw_run ex_H ex_db_text ex_ops) ''adm@udp.edu'' = Some r'"
    and hr: "10 \<le> length (concat (map (staff_entries ''adm@udp.edu'') ex_ops)) \<longrightarrow>
              hist_of (st_password_history r')
              = last_n 10 (concat (map (staff_entries ''adm@udp.edu'') ex_ops))"
    by blast
  from hr have "map changedAt (hist_of (st_password_history r')) = [3, 4, 5, 6, 7, 8, 9, 10, 11, 12]"
    unfolding fs by (simp add: last_n_def)
  with r' have c2: "\<exists>r'. staff (pw_run ex_H ex_db_text ex_ops) ''adm@udp.edu'' = Some r'
         \<and> map changedAt (hist_of (st_password_history r')) = [3, 4, 5, 6, 7, 8, 9, 10, 11, 12]"
    by - (rule exI [of _ r'], simp)
  have e1: "map changedAt (concat (map (student_entries ''12300298'') ex_ops))
        = [1, 2, 3, 4, 5, 6, 7, 8, 9, 10, 11, 12]"
    unfolding es by simp
  show ?thesis by (intro conjI) (rule a na e1 c1 b nb c2)+
qed

subsection \<open>Calendar arithmetic\<close>

text \<open>
  \<open>YearFromDay\<close> computes the year of the standard: the one whose first day is the last
  not after the given day.
\<close>

lemma DayFromYear_bounds:
  "146097 * y - 287811596 \<le> 400 * DayFromYear y"
  "400 * DayFromYear y \<le> 146097 * y - 287810501"
proof -
  define q1 r1 where "q1 = (y - 1969) div 4" and "r1 = (y - 1969) mod 4"
  define q2 r2 where "q2 = (y - 1901) div 100" and "r2 = (y - 1901) mod 100"
  define q3 r3 where "q3 = (y - 1601) div 400" and "r3 = (y - 1601) mod 400"
  have e1: "y = 4 * q1 + r1 + 1969" and b1: "0 \<le> r1" "r1 < 4"
    by (simp_all add: q1_def r1_def)
  have e2: "y = 100 * q2 + r2 + 1901" and b2: "0 \<le> r2" "r2 < 100"
    by (simp_all add: q2_def r2_def)
  have e3: "y = 400 * q3 + r3 + 1601" and b3: "0 \<le> r3" "r3 < 400"
    by (simp_all add: q3_def r3_def)
  have d: "DayFromYear y = 365 * y - 719050 + q1 - q2 + q3"
    by (simp add: DayFromYear_def q1_def q2_def q3_def)
  from d e1 e2 e3 b1 b2 b3 show "146097 * y - 287811596 \<le> 400 * DayFromYear y"
    by linarith
  from d e1 e2 e3 b1 b2 b3 show "400 * DayFromYear y \<le> 146097 * y - 287810501"
    by linarith
qed

lemma DayFromYear_mono: "y < y' \<Longrightarrow> DayFromYear y < DayFromYear y'"
proof -
  assume "y < y'"
  then have "y + 1 \<le> y'" by simp
  with DayFromYear_bounds(2) [of y] DayFromYear_bounds(1) [of y'] show ?thesis by linarith
qed

lemma YearFromDay_spec:
  "DayFromYear (YearFromDay d) \<le> d \<and> d < DayFromYear (YearFromDay d + 1)"
proof -
  define k where "k = (400 * d) div 146097"
  define r where "r = (400 * d) mod 146097"
  define a where "a = 1969 + k"
  define c where "c = 1972 + k"
  have e: "400 * d = 146097 * k + r" and b: "0 \<le> r" "r < 146097"
    by (simp_all add: k_def r_def)
  have lo: "DayFromYear a \<le> d"
    using DayFromYear_bounds(2) [of a] e b by (simp add: a_def)
  have hi: "d < DayFromYear c"
    using DayFromYear_bounds(1) [of c] e b by (simp add: c_def)
  have a': "1970 + k - 1 = a" and c': "1970 + k + 1 + 1 = c"
    by (simp_all add: a_def c_def)
  show ?thesis
    using lo hi unfolding a_def c_def
    by (auto simp add: YearFromDay_def Let_def k_def [symmetric])
qed

lemma YearFromDay_unique:
  assumes "DayFromYear y \<le> d" and "d < DayFromYear (y + 1)"
  shows "YearFromDay d = y"
proof -
  from YearFromDay_spec [of d] have s: "DayFromYear (YearFromDay d) \<le> d"
    "d < DayFromYear (YearFromDay d + 1)" by simp_all
  have "\<not> YearFromDay d < y"
  proof
    assume "YearFromDay d < y"
    then have "YearFromDay d + 1 \<le> y" by simp
    then have "DayFromYear (YearFromDay d + 1) \<le> DayFromYear y"
      using DayFromYear_mono [of "YearFromDay d + 1" y] by (cases "YearFromDay d + 1 = y") auto
    with s assms show False by linarith
  qed
  moreover have "\<not> y < YearFromDay d"
  proof
    assume "y < YearFromDay d"
    then have "y + 1 \<le> YearFromDay d" by simp
    then have "DayFromYear (y + 1) \<le> DayFromYear (YearFromDay d)"
      using DayFromYear_mono [of "y + 1" "YearFromDay d"] by (cases "y + 1 = YearFromDay d") auto
    with s assms show False by linarith
  qed
  ultimately show ?thesis by linarith
qed



lemma Day_msPerDay: "Day (k * msPerDay) = k"
  by (simp add: Day_def msPerDay_def)

lemma ceil_days: "- ((- ((Day L + k) * msPerDay - L)) div msPerDay) = k"
proof -
  have "- ((Day L + k) * msPerDay - L) = L mod msPerDay + (- k) * msPerDay"
    by (simp add: Day_def algebra_simps minus_mult_div_eq_mod [symmetric])
  moreover have "(L mod msPerDay + (- k) * msPerDay) div msPerDay = - k"
    by (simp add: msPerDay_def)
  ultimately show ?thesis by simp
qed

lemma ceiling_days: "\<lceil>real_of_int a / real_of_int msPerDay\<rceil> = - ((- a) div msPerDay)"
  by (simp add: ceiling_divide_eq_div)

lemma local_midnight_day: "Day (LocalTime tza (UTC tza (MakeDate k 0))) = k"
  by (simp add: LocalTime_def UTC_def MakeDate_def Day_msPerDay)

subsection \<open>Strings of the long form\<close>

lemma radix10_char:
  "is_radix_digit 10 c \<Longrightarrow>
     \<not> is_space c \<and> c \<noteq> CHR ''-'' \<and> c \<noteq> CHR ''+'' \<and> c \<noteq> CHR ''x'' \<and> c \<noteq> CHR ''X''
     \<and> c \<noteq> CHR '' ''"
  by (auto simp add: is_radix_digit_def digit_of_def is_space_def Let_def split: if_splits)

lemma digit_char [simp]:
  "k < 10 \<Longrightarrow> is_radix_digit 10 (char_of (48 + k))"
  "k < 10 \<Longrightarrow> digit_val (char_of (48 + k)) = k"
  by (simp_all add: is_radix_digit_def digit_val_def digit_of_def Let_def)













subsection \<open>Card status\<close>

lemma expiryDate_of_empty: "expiryDate_of tza [] = Some None"
  by (simp add: expiryDate_of_def Date_iso_midnight_def parse_iso_date_def Let_def all_digits_def)

lemma not_expired_from_today:
  assumes "expiryDate_of tza x = Some (Some e)"
    and "e = UTC tza (MakeDate (Day (LocalTime tza now) + k) 0)" and "0 \<le> k"
  shows "\<not> isExpired tza now x"
proof -
  have "setHours0 tza (Some e) = TimeClip e"
    using assms(2) by (simp add: setHours0_def local_midnight_day)
  moreover have "setHours0 tza (Some now) = TimeClip (UTC tza (MakeDate (Day (LocalTime tza now)) 0))"
    by (simp add: setHours0_def)
  moreover have "\<not> e < UTC tza (MakeDate (Day (LocalTime tza now)) 0)"
    using assms(2,3) by (simp add: UTC_def MakeDate_def msPerDay_def)
  ultimately show ?thesis
    using assms(1) by (simp add: isExpired_def Let_def date_less_def TimeClip_def)
qed

lemma days_until:
  assumes "expiryDate_of tza x = Some (Some e)"
    and "e = UTC tza (MakeDate (Day (LocalTime tza now) + k) 0)"
  shows "isExpiringSoon tza now x = (0 \<le> k \<and> k \<le> 30)"
proof -
  have x: "x \<noteq> []" using assms(1) expiryDate_of_empty by auto
  have "e - now = (Day (LocalTime tza now) + k) * msPerDay - LocalTime tza now"
    using assms(2) by (simp add: UTC_def MakeDate_def LocalTime_def)
  then have "- ((- (e - now)) div msPerDay) = k"
    using ceil_days [of "LocalTime tza now" k] by simp
  with x assms(1) show ?thesis
    by (simp add: isExpiringSoon_def Let_def)
qed

text \<open>
  Claim C1.  The badge of a row: \<open>INACTIVO\<close> when \<open>active\<close> is false, whatever the
  expiry; otherwise \<open>EXPIRADO\<close> when \<open>isExpired\<close> holds; otherwise \<open>POR VENCER\<close> when
  \<open>isExpiringSoon\<close> holds; otherwise \<open>ACTIVO\<close>.
\<close>

theorem statusBadge_priority:
  "(active s = Some False \<longrightarrow> statusBadge tza now1 now2 s = INACTIVO)
   \<and> (active s \<noteq> Some False \<and> isExpired tza now1 (expiry s) \<longrightarrow>
        statusBadge tza now1 now2 s = EXPIRADO)
   \<and> (active s \<noteq> Some False \<and> \<not> isExpired tza now1 (expiry s)
        \<and> isExpiringSoon tza now2 (expiry s) \<longrightarrow>
        statusBadge tza now1 now2 s = POR_VENCER)
   \<and> (active s \<noteq> Some False \<and> \<not> isExpired tza now1 (expiry s)
        \<and> \<not> isExpiringSoon tza now2 (expiry s) \<longrightarrow>
        statusBadge tza now1 now2 s = ACTIVO)"
  by (simp add: statusBadge_def)

theorem statusBadge_priority_witness:
  "active (ex_student\<lparr>active := Some False, expiry := ''1 ENERO 2020''\<rparr>) = Some False
   \<and> isExpired tz_bogota now_ex ''1 ENERO 2020''
   \<and> statusBadge tz_bogota now_ex now_ex
        (ex_student\<lparr>active := Some False, expiry := ''1 ENERO 2020''\<rparr>) = INACTIVO
   \<and> isExpired tz_bogota now_ex ''1 NOVIEMBRE 2025''
   \<and> statusBadge tz_bogota now_ex now_ex (ex_student\<lparr>expiry := ''1 NOVIEMBRE 2025''\<rparr>)
        = EXPIRADO
   \<and> \<not> isExpired tz_bogota now_ex ''2 NOVIEMBRE 2025''
   \<and> isExpiringSoon tz_bogota now_ex ''2 NOVIEMBRE 2025''
   \<and> statusBadge tz_bogota now_ex now_ex (ex_student\<lparr>expiry := ''2 NOVIEMBRE 2025''\<rparr>)
        = POR_VENCER
   \<and> \<not> isExpired tz_bogota now_ex ''15 ENERO 2030''
   \<and> \<not> isExpiringSoon tz_bogota now_ex ''15 ENERO 2030''
   \<and> statusBadge tz_bogota now_ex now_ex ex_student = ACTIVO"
proof -
  have act: "active ex_student = Some True" by (simp add: ex_student_def)
  have ex: "expiry ex_student = ''15 ENERO 2030''" by (simp add: ex_student_def)
  have i0: "active (ex_student\<lparr>active := Some False, expiry := ''1 ENERO 2020''\<rparr>) = Some False"
    by simp
  have x0: "isExpired tz_bogota now_ex ''1 ENERO 2020''" by code_simp
  have x1: "isExpired tz_bogota now_ex ''1 NOVIEMBRE 2025''" by code_simp
  have x2: "\<not> isExpired tz_bogota now_ex ''2 NOVIEMBRE 2025''" by code_simp
  have s2: "isExpiringSoon tz_bogota now_ex ''2 NOVIEMBRE 2025''" by code_simp
  have x3: "\<not> isExpired tz_bogota now_ex ''15 ENERO 2030''" by code_simp
  have s3: "\<not> isExpiringSoon tz_bogota now_ex ''15 ENERO 2030''" by code_simp
  from statusBadge_priority [of "ex_student\<lparr>active := Some False, expiry := ''1 ENERO 2020''\<rparr>"
      tz_bogota now_ex now_ex]
  have b0: "statusBadge tz_bogota now_ex now_ex
        (ex_student\<lparr>active := Some False, expiry := ''1 ENERO 2020''\<rparr>) = INACTIVO" by simp
  from statusBadge_priority [of "ex_student\<lparr>expiry := ''1 NOVIEMBRE 2025''\<rparr>"
      tz_bogota now_ex now_ex] act x1
  have b1: "statusBadge tz_bogota now_ex now_ex (ex_student\<lparr>expiry := ''1 NOVIEMBRE 2025''\<rparr>)
        = EXPIRADO" by simp
  from statusBadge_priority [of "ex_student\<lparr>expiry := ''2 NOVIEMBRE 2025''\<rparr>"
      tz_bogota now_ex now_ex] act x2 s2
  have b2: "statusBadge tz_bogota now_ex now_ex (ex_student\<lparr>expiry := ''2 NOVIEMBRE 2025''\<rparr>)
        = POR_VENCER" by simp
  from statusBadge_priority [of ex_student tz_bogota now_ex now_ex] act ex x3 s3
  have b3: "statusBadge tz_bogota now_ex now_ex ex_student = ACTIVO" by simp
  show ?thesis by (intro conjI) (rule i0 x0 b0 x1 b1 x2 s2 b2 x3 s3 b3)+
qed

text \<open>
  Claim C6.  For an expiry text that yields a valid Date \<open>e\<close>, \<open>isExpiringSoon\<close> holds
  exactly when the ceiling of \<open>(e - now)\<close> in days lies between 0 and 30.  For a student
  with \<open>active = true\<close> whose expiry is local midnight 15 days after today the badge is
  \<open>POR VENCER\<close>, and 31 days after today it is \<open>ACTIVO\<close> (both clock readings on the
  same local day).
\<close>

theorem isExpiringSoon_window:
  "(expiryDate_of tza x = Some (Some e) \<longrightarrow>
      isExpiringSoon tza now x =
        (0 \<le> \<lceil>real_of_int (e - now) / real_of_int msPerDay\<rceil>
         \<and> \<lceil>real_of_int (e - now) / real_of_int msPerDay\<rceil> \<le> 30))
   \<and> (active s = Some True \<and> expiryDate_of tza (expiry s) = Some (Some e15)
        \<and> Day (LocalTime tza now1) = Day (LocalTime tza now2)
        \<and> e15 = UTC tza (MakeDate (Day (LocalTime tza now2) + 15) 0) \<longrightarrow>
      statusBadge tza now1 now2 s = POR_VENCER)
   \<and> (active s = Some True \<and> expiryDate_of tza (expiry s) = Some (Some e31)
        \<and> Day (LocalTime tza now1) = Day (LocalTime tza now2)
        \<and> e31 = UTC tza (MakeDate (Day (LocalTime tza now2) + 31) 0) \<longrightarrow>
      statusBadge tza now1 now2 s = ACTIVO)"
proof (intro conjI impI)
  assume a: "expiryDate_of tza x = Some (Some e)"
  then have x: "x \<noteq> []" using expiryDate_of_empty by auto
  have c: "\<lceil>real_of_int (e - now) / real_of_int msPerDay\<rceil> = - ((- (e - now)) div msPerDay)"
    by (rule ceiling_days)
  from a x have "isExpiringSoon tza now x =
        (0 \<le> - ((- (e - now)) div msPerDay) \<and> - ((- (e - now)) div msPerDay) \<le> 30)"
    by (simp add: isExpiringSoon_def Let_def)
  then show "isExpiringSoon tza now x =
        (0 \<le> \<lceil>real_of_int (e - now) / real_of_int msPerDay\<rceil>
         \<and> \<lceil>real_of_int (e - now) / real_of_int msPerDay\<rceil> \<le> 30)"
    unfolding c .
next
  assume h: "active s = Some True \<and> expiryDate_of tza (expiry s) = Some (Some e15)
        \<and> Day (LocalTime tza now1) = Day (LocalTime tza now2)
        \<and> e15 = UTC tza (MakeDate (Day (LocalTime tza now2) + 15) 0)"
  then have p: "expiryDate_of tza (expiry s) = Some (Some e15)"
    and e1: "e15 = UTC tza (MakeDate (Day (LocalTime tza now1) + 15) 0)"
    and e2: "e15 = UTC tza (MakeDate (Day (LocalTime tza now2) + 15) 0)"
    by simp_all
  from not_expired_from_today [OF p e1] have "\<not> isExpired tza now1 (expiry s)" by simp
  moreover from days_until [OF p e2] have "isExpiringSoon tza now2 (expiry s)" by simp
  ultimately show "statusBadge tza now1 now2 s = POR_VENCER"
    using h by (simp add: statusBadge_def)
next
  assume h: "active s = Some True \<and> expiryDate_of tza (expiry s) = Some (Some e31)
        \<and> Day (LocalTime tza now1) = Day (LocalTime tza now2)
        \<and> e31 = UTC tza (MakeDate (Day (LocalTime tza now2) + 31) 0)"
  then have p: "expiryDate_of tza (expiry s) = Some (Some e31)"
    and e1: "e31 = UTC tza (MakeDate (Day (LocalTime tza now1) + 31) 0)"
    and e2: "e31 = UTC tza (MakeDate (Day (LocalTime tza now2) + 31) 0)"
    by simp_all
  from not_expired_from_today [OF p e1] have "\<not> isExpired tza now1 (expiry s)" by simp
  moreover from days_until [OF p e2] have "\<not> isExpiringSoon tza now2 (expiry s)" by simp
  ultimately show "statusBadge tza now1 now2 s = ACTIVO"
    using h by (simp add: statusBadge_def)
qed

theorem isExpiringSoon_window_witness:
  "expiryDate_of tz_bogota ''17 NOVIEMBRE 2025'' = Some (Some 1763355600000)
   \<and> \<lceil>real_of_int (1763355600000 - now_ex) / real_of_int msPerDay\<rceil> = 15
   \<and> isExpiringSoon tz_bogota now_ex ''17 NOVIEMBRE 2025''
   \<and> statusBadge tz_bogota now_ex now_ex (ex_student\<lparr>expiry := ''17 NOVIEMBRE 2025''\<rparr>)
        = POR_VENCER
   \<and> expiryDate_of tz_bogota ''3 DICIEMBRE 2025'' = Some (Some 1764738000000)
   \<and> statusBadge tz_bogota now_ex now_ex (ex_student\<lparr>expiry := ''3 DICIEMBRE 2025''\<rparr>)
        = ACTIVO"
proof -
  have p15: "expiryDate_of tz_bogota ''17 NOVIEMBRE 2025'' = Some (Some 1763355600000)"
    by code_simp
  have p31: "expiryDate_of tz_bogota ''3 DICIEMBRE 2025'' = Some (Some 1764738000000)"
    by code_simp
  have e15: "1763355600000 = UTC tz_bogota (MakeDate (Day (LocalTime tz_bogota now_ex) + 15) 0)"
    by code_simp
  have e31: "1764738000000 = UTC tz_bogota (MakeDate (Day (LocalTime tz_bogota now_ex) + 31) 0)"
    by code_simp
  have act: "active ex_student = Some True" by (simp add: ex_student_def)
  have c: "\<lceil>real_of_int (1763355600000 - now_ex) / real_of_int msPerDay\<rceil> = 15"
    by (simp add: now_ex_def msPerDay_def ceiling_divide_eq_div)
  note t15 = isExpiringSoon_window [of tz_bogota "''17 NOVIEMBRE 2025''" 1763355600000 now_ex
      "ex_student\<lparr>expiry := ''17 NOVIEMBRE 2025''\<rparr>" 1763355600000 now_ex now_ex 0]
  note t31 = isExpiringSoon_window [of tz_bogota "''3 DICIEMBRE 2025''" 1764738000000 now_ex
      "ex_student\<lparr>expiry := ''3 DICIEMBRE 2025''\<rparr>" 0 now_ex now_ex 1764738000000]
  from t15 [THEN conjunct1, rule_format, OF p15]
  have s: "isExpiringSoon tz_bogota now_ex ''17 NOVIEMBRE 2025''" unfolding c by simp
  from t15 p15 e15 act
  have b15: "statusBadge tz_bogota now_ex now_ex (ex_student\<lparr>expiry := ''17 NOVIEMBRE 2025''\<rparr>)
        = POR_VENCER" by simp
  from t31 p31 e31 act
  have b31: "statusBadge tz_bogota now_ex now_ex (ex_student\<lparr>expiry := ''3 DICIEMBRE 2025''\<rparr>)
        = ACTIVO" by simp
  show ?thesis by (intro conjI) (rule p15 c s b15 p31 b31)+
qed

lemma no_date_false:
  "expiryDate_of tza x = None \<or> expiryDate_of tza x = Some None \<Longrightarrow>
   isExpired tza now x = False \<and> isExpiringSoon tza now x = False"
  by (auto simp add: isExpired_def isExpiringSoon_def Let_def setHours0_def date_less_def)

lemma all_digits_chars:
  "all_digits s \<Longrightarrow> c \<in> set s \<Longrightarrow> c \<noteq> CHR '' '' \<and> c \<noteq> CHR ''-'' \<and> c \<noteq> CHR ''+''"
  using radix10_char [of c] by (auto simp add: all_digits_def)

lemma iso_out_of_range:
  assumes "length ys = 4" and "length ms = 2" and "length ds = 2"
    and "all_digits ys" and "all_digits ms" and "all_digits ds"
    and "decimal ms < 1 \<or> 12 < decimal ms \<or> decimal ds < 1 \<or> 31 < decimal ds"
  shows "parse_iso_date (ys @ ''-'' @ ms @ ''-'' @ ds) = None"
    and "CHR '' '' \<notin> set (ys @ ''-'' @ ms @ ''-'' @ ds)"
proof -
  from assms(1) obtain y ys' where ys: "ys = y # ys'" by (cases ys) auto
  from all_digits_chars [OF assms(4), of y] ys
  have y: "y \<noteq> CHR ''-''" "y \<noteq> CHR ''+''" by simp_all
  have hdx: "hd (ys @ ''-'' @ ms @ ''-'' @ ds) = y" by (simp add: ys)
  have nex: "ys @ ''-'' @ ms @ ''-'' @ ds \<noteq> []" by (simp add: ys)
  have tk: "take 4 (ys @ ''-'' @ ms @ ''-'' @ ds) = ys"
    using assms(1) by simp
  have dr: "drop 4 (ys @ ''-'' @ ms @ ''-'' @ ds) = ''-'' @ ms @ ''-'' @ ds"
    using assms(1) by simp
  have m: "take 2 (drop 1 (''-'' @ ms @ ''-'' @ ds)) = ms"
    using assms(2) by simp
  have dd: "take 2 (drop 4 (''-'' @ ms @ ''-'' @ ds)) = ds"
    using assms(2,3) by simp
  have len: "length (''-'' @ ms @ ''-'' @ ds) = 6"
    using assms(2,3) by simp
  have n3: "(''-'' @ ms @ ''-'' @ ds) ! 3 = CHR ''-''"
    using assms(2) by (simp add: nth_append)
  have hdr: "hd (''-'' @ ms @ ''-'' @ ds) = CHR ''-''" by simp
  have ner: "''-'' @ ms @ ''-'' @ ds \<noteq> []" by simp
  show "parse_iso_date (ys @ ''-'' @ ms @ ''-'' @ ds) = None"
    unfolding parse_iso_date_def Let_def hdx
    using y assms(1,2,3,4,5,6,7) ner
    by (simp only: nex tk dr m dd len n3 hdr simp_thms if_False if_True)
      (auto simp add: )
  show "CHR '' '' \<notin> set (ys @ ''-'' @ ms @ ''-'' @ ds)"
    using all_digits_chars [OF assms(4)] all_digits_chars [OF assms(5)]
      all_digits_chars [OF assms(6)] by auto
qed

lemma iso_in_range:
  assumes "length ys = 4" and "length ms = 2" and "length ds = 2"
    and "all_digits ys" and "all_digits ms" and "all_digits ds"
    and "1 \<le> decimal ms" and "decimal ms \<le> 12" and "1 \<le> decimal ds" and "decimal ds \<le> 31"
  shows "parse_iso_date (ys @ ''-'' @ ms @ ''-'' @ ds) = Some (decimal ys, decimal ms, decimal ds)"
proof -
  from assms(1) obtain y ys' where ys: "ys = y # ys'" by (cases ys) auto
  from all_digits_chars [OF assms(4), of y] ys
  have y: "y \<noteq> CHR ''-''" "y \<noteq> CHR ''+''" by simp_all
  have hdx: "hd (ys @ ''-'' @ ms @ ''-'' @ ds) = y" by (simp add: ys)
  have nex: "ys @ ''-'' @ ms @ ''-'' @ ds \<noteq> []" by (simp add: ys)
  have tk: "take 4 (ys @ ''-'' @ ms @ ''-'' @ ds) = ys"
    using assms(1) by simp
  have dr: "drop 4 (ys @ ''-'' @ ms @ ''-'' @ ds) = ''-'' @ ms @ ''-'' @ ds"
    using assms(1) by simp
  have m: "take 2 (drop 1 (''-'' @ ms @ ''-'' @ ds)) = ms"
    using assms(2) by simp
  have dd: "take 2 (drop 4 (''-'' @ ms @ ''-'' @ ds)) = ds"
    using assms(2,3) by simp
  have len: "length (''-'' @ ms @ ''-'' @ ds) = 6"
    using assms(2,3) by simp
  have n3: "(''-'' @ ms @ ''-'' @ ds) ! 3 = CHR ''-''"
    using assms(2) by (simp add: nth_append)
  have hdr: "hd (''-'' @ ms @ ''-'' @ ds) = CHR ''-''" by simp
  have ner: "''-'' @ ms @ ''-'' @ ds \<noteq> []" by simp
  show ?thesis
    unfolding parse_iso_date_def Let_def hdx
    using y assms ner
    by (simp only: nex tk dr m dd len n3 hdr simp_thms if_False if_True)
      (auto simp add: )
qed

text \<open>
  Claim C8, as stated, fails for a malformed ISO date that the Date parser accepts: the
  thirtieth of February 2025 is read as 2 March 2025, and on 2 November 2025 \<open>isExpired\<close>
  answers true for it.
\<close>

theorem expiry_malformed_iso_counterexample:
  "isExpired tz_bogota now_ex ''2025-02-30'' = True
   \<and> Date_iso_midnight tz_bogota ''2025-02-30'' = Date_iso_midnight tz_bogota ''2025-03-02''
   \<and> formatDateToSpanish tz_bogota ''2025-02-30'' = ''2 MARZO 2025''"
  by code_simp

text \<open>
  Claim C8, amended.  \<open>isExpired\<close> and \<open>isExpiringSoon\<close> are total (nothing in their bodies
  can throw on a string, and both are functions here), and they answer false on the empty
  string, on every text for which no Date or an invalid Date results, in particular on a
  text without blank that the Date parser rejects, on a text in the layout \<open>YYYY-MM-DD\<close>
  whose month is outside 01 to 12 or whose day is outside 01 to 31, and on a long form
  whose second word is not one of the twelve month names.  A text in that layout with
  month 01 to 12 and day 01 to 31 is accepted, the day counted on from the first of the
  month whatever the length of the month.
\<close>

theorem expiry_unparseable_false:
  "isExpired tza now [] = False \<and> isExpiringSoon tza now [] = False
   \<and> (expiryDate_of tza x = None \<or> expiryDate_of tza x = Some None \<longrightarrow>
        isExpired tza now x = False \<and> isExpiringSoon tza now x = False)
   \<and> (CHR '' '' \<notin> set x \<and> Date_iso_midnight tza x = None \<longrightarrow>
        isExpired tza now x = False \<and> isExpiringSoon tza now x = False)
   \<and> (length ys = 4 \<and> length ms = 2 \<and> length ds = 2
        \<and> all_digits ys \<and> all_digits ms \<and> all_digits ds
        \<and> (decimal ms < 1 \<or> 12 < decimal ms \<or> decimal ds < 1 \<or> 31 < decimal ds) \<longrightarrow>
        isExpired tza now (ys @ ''-'' @ ms @ ''-'' @ ds) = False
        \<and> isExpiringSoon tza now (ys @ ''-'' @ ms @ ''-'' @ ds) = False)
   \<and> (length ys' = 4 \<and> length ms' = 2 \<and> length ds' = 2
        \<and> all_digits ys' \<and> all_digits ms' \<and> all_digits ds'
        \<and> 1 \<le> decimal ms' \<and> decimal ms' \<le> 12 \<and> 1 \<le> decimal ds' \<and> decimal ds' \<le> 31 \<longrightarrow>
        expiryDate_of tza (ys' @ ''-'' @ ms' @ ''-'' @ ds') =
          Some (TimeClip (UTC tza (MakeDate
                  (MakeDay (decimal ys') (decimal ms' - 1) (decimal ds')) 0))))
   \<and> (CHR '' '' \<in> set x \<and> (\<forall>p. at_index (split_on (CHR '' '') x) 1 = Some p \<longrightarrow> p \<notin> set months)
        \<longrightarrow> isExpired tza now x = False \<and> isExpiringSoon tza now x = False)"
proof (intro conjI impI)
  show "isExpired tza now [] = False" by (simp add: isExpired_def)
  show "isExpiringSoon tza now [] = False" by (simp add: isExpiringSoon_def)
next
  assume "expiryDate_of tza x = None \<or> expiryDate_of tza x = Some None"
  from no_date_false [OF this]
  show "isExpired tza now x = False" "isExpiringSoon tza now x = False" by simp_all
next
  assume "CHR '' '' \<notin> set x \<and> Date_iso_midnight tza x = None"
  then have "expiryDate_of tza x = None \<or> expiryDate_of tza x = Some None"
    by (simp add: expiryDate_of_def)
  from no_date_false [OF this]
  show "isExpired tza now x = False" "isExpiringSoon tza now x = False" by simp_all
next
  assume h: "length ys = 4 \<and> length ms = 2 \<and> length ds = 2
        \<and> all_digits ys \<and> all_digits ms \<and> all_digits ds
        \<and> (decimal ms < 1 \<or> 12 < decimal ms \<or> decimal ds < 1 \<or> 31 < decimal ds)"
  then have p: "parse_iso_date (ys @ ''-'' @ ms @ ''-'' @ ds) = None"
    and s: "CHR '' '' \<notin> set (ys @ ''-'' @ ms @ ''-'' @ ds)"
    using iso_out_of_range [of ys ms ds] by blast+
  from p s have "expiryDate_of tza (ys @ ''-'' @ ms @ ''-'' @ ds) = None
      \<or> expiryDate_of tza (ys @ ''-'' @ ms @ ''-'' @ ds) = Some None"
    unfolding expiryDate_of_def Date_iso_midnight_def by (simp only: if_False option.case simp_thms)
  from no_date_false [OF this]
  show "isExpired tza now (ys @ ''-'' @ ms @ ''-'' @ ds) = False"
    "isExpiringSoon tza now (ys @ ''-'' @ ms @ ''-'' @ ds) = False" by simp_all
next
  assume h: "length ys' = 4 \<and> length ms' = 2 \<and> length ds' = 2
        \<and> all_digits ys' \<and> all_digits ms' \<and> all_digits ds'
        \<and> 1 \<le> decimal ms' \<and> decimal ms' \<le> 12 \<and> 1 \<le> decimal ds' \<and> decimal ds' \<le> 31"
  then have p: "parse_iso_date (ys' @ ''-'' @ ms' @ ''-'' @ ds')
      = Some (decimal ys', decimal ms', decimal ds')"
    using iso_in_range [of ys' ms' ds'] by blast
  from h have s: "CHR '' '' \<notin> set (ys' @ ''-'' @ ms' @ ''-'' @ ds')"
    using all_digits_chars [of ys'] all_digits_chars [of ms'] all_digits_chars [of ds'] by auto
  from p s show "expiryDate_of tza (ys' @ ''-'' @ ms' @ ''-'' @ ds') =
          Some (TimeClip (UTC tza (MakeDate
                  (MakeDay (decimal ys') (decimal ms' - 1) (decimal ds')) 0)))"
    unfolding expiryDate_of_def Date_iso_midnight_def
    by (simp only: if_False option.case prod.case simp_thms)
next
  assume h: "CHR '' '' \<in> set x
     \<and> (\<forall>p. at_index (split_on (CHR '' '') x) 1 = Some p \<longrightarrow> p \<notin> set months)"
  have absent: "\<And>p i. p \<notin> set ms \<Longrightarrow> indexOf_from ms p i = - 1" for ms :: "string list"
  proof -
    fix p i show "p \<notin> set ms \<Longrightarrow> indexOf_from ms p i = - 1"
      by (induction ms arbitrary: i) auto
  qed
  from h have "expiryDate_of tza x = None"
    by (auto simp add: expiryDate_of_def Let_def indexOf_def absent split: option.splits)
  then show "isExpired tza now x = False" "isExpiringSoon tza now x = False"
    by (auto simp add: isExpired_def isExpiringSoon_def Let_def)
qed

theorem expiry_unparseable_false_witness:
  "Date_iso_midnight tz_bogota ''2020-13-45'' = None
   \<and> isExpired tz_bogota now_ex ''2020-13-45'' = False
   \<and> isExpiringSoon tz_bogota now_ex ''2020-13-45'' = False
   \<and> all_digits ''2020'' \<and> all_digits ''02'' \<and> all_digits ''32'' \<and> 31 < decimal ''32''
   \<and> isExpired tz_bogota now_ex ''2020-02-32'' = False
   \<and> isExpiringSoon tz_bogota now_ex ''2020-02-32'' = False
   \<and> all_digits ''2025'' \<and> all_digits ''30'' \<and> decimal ''02'' = 2 \<and> decimal ''30'' = 30
   \<and> expiryDate_of tz_bogota ''2025-02-30'' = Some (Some 1740891600000)
   \<and> at_index (split_on (CHR '' '') ''15 JANUARY 2020'') 1 = Some ''JANUARY''
   \<and> ''JANUARY'' \<notin> set months
   \<and> isExpired tz_bogota now_ex ''15 JANUARY 2020'' = False
   \<and> isExpiringSoon tz_bogota now_ex ''15 JANUARY 2020'' = False
   \<and> expiryDate_of tz_bogota ''15 ENERO'' = Some None
   \<and> isExpired tz_bogota now_ex ''15 ENERO'' = False
   \<and> isExpiringSoon tz_bogota now_ex ''15 ENERO'' = False"
proof -
  have n: "CHR '' '' \<notin> set ''2020-13-45''" by simp
  have p: "Date_iso_midnight tz_bogota ''2020-13-45'' = None" by code_simp
  have y: "CHR '' '' \<in> set ''15 JANUARY 2020''" by simp
  have q: "at_index (split_on (CHR '' '') ''15 JANUARY 2020'') 1 = Some ''JANUARY''" by code_simp
  have m: "''JANUARY'' \<notin> set months" by (simp add: months_def)
  have u: "expiryDate_of tz_bogota ''15 ENERO'' = Some None" by code_simp
  have d1: "all_digits ''2020''" and d2: "all_digits ''02''" and d3: "all_digits ''32''"
    by code_simp+
  have d4: "31 < decimal ''32''" by code_simp
  from expiry_unparseable_false [of tz_bogota now_ex "''2020-13-45''"] n p
  have r1: "isExpired tz_bogota now_ex ''2020-13-45'' = False"
    and r2: "isExpiringSoon tz_bogota now_ex ''2020-13-45'' = False" by simp_all
  from expiry_unparseable_false [where ys = "''2020''" and ms = "''02''" and ds = "''32''"
      and tza = tz_bogota and now = now_ex] d1 d2 d3 d4
  have r7: "isExpired tz_bogota now_ex ''2020-02-32'' = False"
    and r8: "isExpiringSoon tz_bogota now_ex ''2020-02-32'' = False" by simp_all
  have g1: "all_digits ''2025''" and g3: "all_digits ''30''" by code_simp+
  have g2: "decimal ''02'' = 2" and g4: "decimal ''30'' = 30" and g5: "decimal ''2025'' = 2025"
    by code_simp+
  have g6: "TimeClip (UTC tz_bogota (MakeDate (MakeDay 2025 (2 - 1) 30) 0)) = Some 1740891600000"
    by code_simp
  from expiry_unparseable_false [where ys' = "''2025''" and ms' = "''02''" and ds' = "''30''"
      and tza = tz_bogota] g1 d2 g3 g2 g4 g5 g6
  have r9: "expiryDate_of tz_bogota ''2025-02-30'' = Some (Some 1740891600000)" by simp
  from expiry_unparseable_false [of tz_bogota now_ex "''15 JANUARY 2020''"] y q m
  have r3: "isExpired tz_bogota now_ex ''15 JANUARY 2020'' = False"
    and r4: "isExpiringSoon tz_bogota now_ex ''15 JANUARY 2020'' = False" by simp_all
  from expiry_unparseable_false [of tz_bogota now_ex "''15 ENERO''"] u
  have r5: "isExpired tz_bogota now_ex ''15 ENERO'' = False"
    and r6: "isExpiringSoon tz_bogota now_ex ''15 ENERO'' = False" by simp_all
  show ?thesis by (intro conjI) (rule p r1 r2 d1 d2 d3 d4 r7 r8 g1 g3 g2 g4 r9 q m r3 r4 u r5 r6)+
qed




end
